theory Spec2Isabelle
  imports Complex_Main "HOL-Library.AList" "HOL-Library.Sublist"
begin

section \<open>Python values and exceptions\<close>

text \<open>
  The repository is Python. Its floats are modelled as the reals (\<open>math.pi\<close>,
  \<open>math.sin\<close>, \<open>math.cos\<close> and \<open>math.log2\<close> as \<open>pi\<close>, \<open>sin\<close>, \<open>cos\<close> and \<open>log 2\<close>),
  so rounding is left out; the one place where a NaN arises (\<open>np.mean\<close> of an empty
  list) is modelled with an explicit NaN further down. An exception is a value of \<open>py_error\<close>, and
  a function that can raise returns \<open>py_error + 'a\<close>.
\<close>

text \<open>
  The exceptions of the model are instances of \<open>Exception\<close>, so an \<open>except Exception\<close>
  clause catches each of them. \<open>Raised s\<close> stands for any other such exception whose
  \<open>str\<close> is \<open>s\<close>.
\<close>

datatype py_error = ZeroDivisionError | NameError string | Raised string

text \<open>\<open>str(e)\<close>.\<close>

fun str_of :: "py_error \<Rightarrow> string" where
  "str_of ZeroDivisionError = ''float division by zero''"
| "str_of (NameError n) = ''name '' @ [CHR 0x27] @ n @ [CHR 0x27] @ '' is not defined''"
| "str_of (Raised s) = s"

text \<open>Float division: Python raises ZeroDivisionError on a zero divisor.\<close>

definition py_div :: "real \<Rightarrow> real \<Rightarrow> py_error + real" where
  "py_div a b = (if b = 0 then Inl ZeroDivisionError else Inr (a / b))"

text \<open>Float \<open>a % b\<close> for a non-zero \<open>b\<close>: the result has the sign of the divisor.\<close>

definition py_mod :: "real \<Rightarrow> real \<Rightarrow> real" where
  "py_mod a b = a - of_int \<lfloor>a / b\<rfloor> * b"

section \<open>rft_engine.py: the RFT engine\<close>

record parameters =
  omega_obs_base :: real
  chi_liam_base :: real
  delta_phi_base :: real
  upsilon_base :: real
  tau_eff_base :: real

text \<open>
  An entry of \<open>observer_states\<close>. Its key \<open>challenge_history\<close>, an empty list that
  the engine never writes to, is left out.
\<close>

record observer =
  base_coherence :: real
  interaction_count :: int
  synchronization_level :: real

text \<open>
  The dictionary \<open>calculate_rft_parameters\<close> builds; it always has these seven keys, so
  it is a record.
\<close>

record rft_params =
  omega_obs :: real
  chi_liam :: real
  delta_phi :: real
  upsilon :: real
  tau_eff :: real
  calculation_timestamp :: real
  observer_id :: int

record engine =
  base_parameters :: parameters
  current_parameters :: parameters
  calculation_history :: "rft_params list"
  observer_states :: "int \<rightharpoonup> observer"

text \<open>The dictionary \<open>_detect_signal_interference\<close> returns.\<close>

record interference_result =
  detected :: bool
  spike_level :: real
  warning_message :: "string option"

text \<open>
  The dictionary \<open>process_challenge\<close> returns, with the keys the engine and the
  handler read (\<open>'type'\<close> is the field \<open>challenge_type\<close>). \<open>process_challenge\<close> always
  sets these keys, so the defaults of the engine's \<open>challenge_data.get(key, default)\<close>
  are never used.
\<close>

record challenge_data =
  normalized_text :: string
  user_id :: int
  challenge_type :: string
  complexity :: real
  semantic_density :: real
  entropy :: real
  urgency :: real
  word_count :: nat
  interference_detected :: interference_result

definition COHERENCE_THRESHOLD :: real where
  "COHERENCE_THRESHOLD = 0.707"

definition PHASE_STABILITY_LIMIT :: real where
  "PHASE_STABILITY_LIMIT = 2 * pi"

definition TEMPORAL_VARIANCE_MAX :: real where
  "TEMPORAL_VARIANCE_MAX = 10.0"

definition init_parameters :: parameters where
  "init_parameters = \<lparr>omega_obs_base = 1.618, chi_liam_base = 2.718,
     delta_phi_base = 3.14159, upsilon_base = 1.414, tau_eff_base = 1.0\<rparr>"

text \<open>\<open>RFTEngine.__init__\<close>.\<close>

definition init_engine :: engine where
  "init_engine = \<lparr>base_parameters = init_parameters, current_parameters = init_parameters,
     calculation_history = [], observer_states = Map.empty\<rparr>"

text \<open>\<open>_calibrate_base_parameters\<close>; \<open>current_time\<close> is the reading of \<open>time.time()\<close>.\<close>

definition calibrate_base_parameters :: "real \<Rightarrow> engine \<Rightarrow> engine" where
  "calibrate_base_parameters current_time eng =
     (let time_factor = sin (current_time / 86400) * 0.1;
          cp = current_parameters eng
      in eng\<lparr>current_parameters :=
           cp\<lparr>omega_obs_base := omega_obs_base cp * (1 + time_factor),
              chi_liam_base := chi_liam_base cp * (1 + time_factor * 0.5)\<rparr>\<rparr>)"

text \<open>\<open>initialize\<close>.\<close>

definition initialize :: "real \<Rightarrow> engine \<Rightarrow> engine" where
  "initialize current_time eng =
     calibrate_base_parameters current_time
       (eng\<lparr>observer_states := Map.empty, calculation_history := []\<rparr>)"

text \<open>
  \<open>_calculate_observer_state\<close>. \<open>r_base\<close> is the value \<open>random.uniform(0.8, 1.2)\<close>
  returns; it is drawn only for an observer not yet in \<open>observer_states\<close>. The function
  returns the engine with the observer's entry updated, and \<open>omega_obs\<close>. When the
  last division raises, the result is the exception alone: the state an exception leaves
  behind is not part of the model.
\<close>

definition calculate_observer_state ::
  "real \<Rightarrow> real \<Rightarrow> engine \<Rightarrow> int \<Rightarrow> challenge_data \<Rightarrow> py_error + (engine \<times> real)" where
  "calculate_observer_state r_base current_time eng uid cd =
     (let obs0 = (case observer_states eng uid of
                    None \<Rightarrow> \<lparr>base_coherence = r_base, interaction_count = 0,
                              synchronization_level = 1.0\<rparr>
                  | Some ob \<Rightarrow> ob);
          obs1 = obs0\<lparr>interaction_count := interaction_count obs0 + 1\<rparr>;
          omega0 = omega_obs_base (current_parameters eng) * base_coherence obs1;
          experience_factor = 1 + of_int (interaction_count obs1) * 0.01;
          omega1 = omega0 * min experience_factor 2.0;
          complexity_modifier = 0.8 + complexity cd * 0.4;
          omega2 = omega1 * complexity_modifier;
          temporal_coherence = cos (current_time / 3600) * 0.1 + 1;
          omega3 = omega2 * temporal_coherence
      in case py_div omega3 (omega_obs_base (current_parameters eng)) of
           Inl e \<Rightarrow> Inl e
         | Inr q \<Rightarrow>
             Inr (eng\<lparr>observer_states :=
                    (observer_states eng)(uid \<mapsto> obs1\<lparr>synchronization_level := min q 2.0\<rparr>)\<rparr>,
                  omega3))"

text \<open>
  \<open>_calculate_coherence_coefficient\<close>. The \<open>type_modifiers\<close> dictionary, with its
  \<open>get(challenge_type, 1.0)\<close>.
\<close>

definition type_modifiers :: "(string \<times> real) list" where
  "type_modifiers = [(''cognitive'', 1.2), (''theoretical'', 1.1), (''perceptual'', 1.15),
     (''temporal'', 1.3), (''quantum'', 1.25), (''consciousness'', 1.4), (''general'', 1.0)]"

definition calculate_coherence_coefficient :: "engine \<Rightarrow> string \<Rightarrow> real \<Rightarrow> real" where
  "calculate_coherence_coefficient eng ctype cplx =
     (let chi0 = chi_liam_base (current_parameters eng);
          modifier = (case map_of type_modifiers ctype of None \<Rightarrow> 1.0 | Some m \<Rightarrow> m);
          chi1 = chi0 * modifier;
          complexity_scaling = 0.7 + cplx * 0.6;
          chi2 = chi1 * complexity_scaling
      in if chi2 > COHERENCE_THRESHOLD * 4 then chi2 * 0.9 else chi2)"

text \<open>\<open>_calculate_phase_differential\<close>.\<close>

definition calculate_phase_differential :: "real \<Rightarrow> engine \<Rightarrow> real \<Rightarrow> challenge_data \<Rightarrow> real" where
  "calculate_phase_differential current_time eng sd cd =
     (let d0 = delta_phi_base (current_parameters eng);
          semantic_factor = sd * 2;
          d1 = d0 * (1 + semantic_factor * 0.2);
          entropy_modifier = 1 + (entropy cd - 0.5) * 0.3;
          d2 = d1 * entropy_modifier;
          phase_shift = sin (current_time / 1800) * 0.5;
          d3 = d2 + phase_shift;
          d4 = (if d3 > PHASE_STABILITY_LIMIT then py_mod d3 PHASE_STABILITY_LIMIT else d3)
      in \<bar>d4\<bar>)"

text \<open>
  \<open>_calculate_temporal_scaling\<close>. \<open>variance\<close> is the value \<open>random.uniform(-0.1, 0.1)\<close>
  returns.
\<close>

definition calculate_temporal_scaling :: "real \<Rightarrow> engine \<Rightarrow> int \<Rightarrow> challenge_data \<Rightarrow> real" where
  "calculate_temporal_scaling variance eng uid cd =
     (let u0 = upsilon_base (current_parameters eng);
          u1 = (case observer_states eng uid of
                  None \<Rightarrow> u0
                | Some ob \<Rightarrow> u0 * synchronization_level ob);
          urgency_scaling = 0.8 + urgency cd * 0.4;
          u2 = u1 * urgency_scaling;
          u3 = u2 * (1 + variance)
      in max 0.1 (min u3 TEMPORAL_VARIANCE_MAX))"

text \<open>\<open>_calculate_effective_timing\<close>, with its guard against a zero denominator.\<close>

definition calculate_effective_timing ::
  "engine \<Rightarrow> real \<Rightarrow> real \<Rightarrow> real \<Rightarrow> real \<Rightarrow> py_error + real" where
  "calculate_effective_timing eng om chi dphi ups =
     (let numerator = om * chi;
          denominator0 = dphi * ups;
          denominator = (if denominator0 = 0 then 0.001 else denominator0);
          tau0 = numerator / denominator
      in case py_div chi (chi_liam_base (current_parameters eng)) of
           Inl e \<Rightarrow> Inl e
         | Inr q \<Rightarrow> Inr (tau0 * min q 2.0 * tau_eff_base (base_parameters eng)))"

text \<open>
  The values \<open>calculate_rft_parameters\<close> reads from outside the engine: the readings of
  \<open>time.time()\<close> and the two \<open>random.uniform\<close> draws.
\<close>

record calc_inputs =
  t_observer :: real
  t_phase :: real
  t_stamp :: real
  r_base_coherence :: real
  r_variance :: real

text \<open>\<open>calculate_rft_parameters\<close>: the engine after the call, and the parameters.\<close>

definition calculate_rft_parameters ::
  "calc_inputs \<Rightarrow> engine \<Rightarrow> challenge_data \<Rightarrow> py_error + (engine \<times> rft_params)" where
  "calculate_rft_parameters inp eng cd =
     (case calculate_observer_state (r_base_coherence inp) (t_observer inp) eng (user_id cd) cd of
        Inl e \<Rightarrow> Inl e
      | Inr (eng1, om) \<Rightarrow>
          (let chi = calculate_coherence_coefficient eng1 (challenge_type cd) (complexity cd);
               dphi = calculate_phase_differential (t_phase inp) eng1 (semantic_density cd) cd;
               ups = calculate_temporal_scaling (r_variance inp) eng1 (user_id cd) cd
           in case calculate_effective_timing eng1 om chi dphi ups of
                Inl e \<Rightarrow> Inl e
              | Inr tau \<Rightarrow>
                  (let p = \<lparr>omega_obs = om, chi_liam = chi, delta_phi = dphi, upsilon = ups,
                             tau_eff = tau, calculation_timestamp = t_stamp inp,
                             observer_id = user_id cd\<rparr>
                   in Inr (eng1\<lparr>calculation_history := calculation_history eng1 @ [p]\<rparr>, p))))"

text \<open>\<open>_calculate_frame_stability\<close>: four divisions by the current base values.\<close>

definition calculate_frame_stability :: "engine \<Rightarrow> rft_params \<Rightarrow> py_error + real" where
  "calculate_frame_stability eng p =
     (let cp = current_parameters eng in
      case py_div \<bar>omega_obs p - omega_obs_base cp\<bar> (omega_obs_base cp) of
        Inl e \<Rightarrow> Inl e
      | Inr obs_variance \<Rightarrow>
      case py_div \<bar>chi_liam p - chi_liam_base cp\<bar> (chi_liam_base cp) of
        Inl e \<Rightarrow> Inl e
      | Inr coherence_variance \<Rightarrow>
      case py_div \<bar>delta_phi p - delta_phi_base cp\<bar> (delta_phi_base cp) of
        Inl e \<Rightarrow> Inl e
      | Inr phase_variance \<Rightarrow>
      case py_div \<bar>upsilon p - upsilon_base cp\<bar> (upsilon_base cp) of
        Inl e \<Rightarrow> Inl e
      | Inr temporal_variance \<Rightarrow>
          (let total_variance =
                 (obs_variance + coherence_variance + phase_variance + temporal_variance) / 4
           in Inr (max 0 (1 - total_variance))))"

text \<open>\<open>_calculate_rendering_confidence\<close>.\<close>

definition calculate_rendering_confidence :: "real \<Rightarrow> real \<Rightarrow> real \<Rightarrow> real" where
  "calculate_rendering_confidence omega stab tau =
     (let omega_confidence = min (\<bar>omega\<bar> / 2) 1.0;
          stability_confidence = stab;
          timing_confidence = min (tau / 2) 1.0
      in omega_confidence * 0.4 + stability_confidence * 0.35 + timing_confidence * 0.25)"

text \<open>\<open>_determine_frame_type\<close>; its second argument \<open>rft_params\<close> is not read.\<close>

definition determine_frame_type :: "real \<Rightarrow> rft_params \<Rightarrow> string" where
  "determine_frame_type omega p =
     (if omega > 2.0 then ''high_coherence''
      else if omega > 1.0 then ''stable_coherence''
      else if omega > 0.5 then ''moderate_coherence''
      else ''low_coherence'')"

text \<open>\<open>_assess_rendering_quality\<close>.\<close>

definition assess_rendering_quality :: "engine \<Rightarrow> real \<Rightarrow> rft_params \<Rightarrow> py_error + string" where
  "assess_rendering_quality eng omega p =
     (case calculate_frame_stability eng p of
        Inl e \<Rightarrow> Inl e
      | Inr stab \<Rightarrow>
          Inr (if stab > 0.8 \<and> omega > 1.5 then ''excellent''
               else if stab > 0.6 \<and> omega > 1.0 then ''good''
               else if stab > 0.4 \<and> omega > 0.5 then ''fair''
               else ''poor''))"

record frame_characteristics =
  coherence_level :: real
  temporal_alignment :: real
  phase_coherence :: real
  observer_resonance :: real
  complexity_resolution :: real
  frame_type :: string
  rendering_quality :: string

text \<open>
  \<open>_generate_frame_characteristics\<close>. Python evaluates the entries of the dictionary
  display in order, so the first division that fails is the one that raises.
\<close>

definition generate_frame_characteristics ::
  "engine \<Rightarrow> real \<Rightarrow> rft_params \<Rightarrow> challenge_data \<Rightarrow> py_error + frame_characteristics" where
  "generate_frame_characteristics eng omega p cd =
     (let cp = current_parameters eng in
      case py_div (chi_liam p) (chi_liam_base cp) of
        Inl e \<Rightarrow> Inl e
      | Inr q \<Rightarrow>
      case py_div (omega_obs p) (omega_obs_base cp) of
        Inl e \<Rightarrow> Inl e
      | Inr res \<Rightarrow>
      case assess_rendering_quality eng omega p of
        Inl e \<Rightarrow> Inl e
      | Inr quality \<Rightarrow>
          Inr \<lparr>coherence_level = min q 2.0,
               temporal_alignment = tau_eff p,
               phase_coherence = cos (delta_phi p),
               observer_resonance = res,
               complexity_resolution = omega,
               frame_type = determine_frame_type omega p,
               rendering_quality = quality\<rparr>)"

text \<open>
  \<open>_get_observer_type_alignment\<close>; \<open>type_variance\<close> is the value
  \<open>random.uniform(-0.2, 0.2)\<close> returns.
\<close>

definition get_observer_type_alignment :: "real \<Rightarrow> int \<Rightarrow> string \<Rightarrow> real" where
  "get_observer_type_alignment type_variance uid ctype =
     (let base_alignment = 0.8 in max 0.1 (min (base_alignment + type_variance) 1.0))"

text \<open>\<open>_calculate_observer_alignment\<close>.\<close>

definition calculate_observer_alignment ::
  "real \<Rightarrow> engine \<Rightarrow> rft_params \<Rightarrow> challenge_data \<Rightarrow> real" where
  "calculate_observer_alignment type_variance eng p cd =
     (case observer_states eng (observer_id p) of
        Some ob \<Rightarrow>
          (let base_alignment = synchronization_level ob;
               type_alignment =
                 get_observer_type_alignment type_variance (observer_id p) (challenge_type cd);
               alignment = base_alignment * 0.7 + type_alignment * 0.3
           in min alignment 1.0)
      | None \<Rightarrow> 0.5)"

record equation_components =
  numerator :: real
  denominator :: real
  equation_balance :: real

record rendered_frame =
  omega_result :: real
  stability :: real
  confidence :: real
  frame_tau_eff :: real
  characteristics :: frame_characteristics
  observer_alignment :: real
  rendering_timestamp :: real
  rft_equation_components :: equation_components

text \<open>
  The statement \<open>omega_result = (omega_obs * chi_liam) / (delta_phi * upsilon)\<close> of
  \<open>render_frame\<close>: a division with no guard.
\<close>

definition core_equation :: "rft_params \<Rightarrow> py_error + real" where
  "core_equation p = py_div (omega_obs p * chi_liam p) (delta_phi p * upsilon p)"

text \<open>The expression stored under \<open>'equation_balance'\<close> in \<open>render_frame\<close>.\<close>

definition equation_balance_of :: "rft_params \<Rightarrow> real" where
  "equation_balance_of p = (omega_obs p * chi_liam p) / max (delta_phi p * upsilon p) 0.001"

text \<open>
  \<open>render_frame\<close>. \<open>type_variance\<close> is the \<open>random.uniform\<close> draw of
  \<open>_get_observer_type_alignment\<close> and \<open>t_render\<close> the reading of \<open>time.time()\<close>. The
  first statement that can raise is the unguarded division of the core equation.
\<close>

definition render_frame ::
  "real \<Rightarrow> real \<Rightarrow> engine \<Rightarrow> rft_params \<Rightarrow> challenge_data \<Rightarrow> py_error + rendered_frame" where
  "render_frame type_variance t_render eng p cd =
     (case core_equation p of
        Inl e \<Rightarrow> Inl e
      | Inr omega \<Rightarrow>
      case calculate_frame_stability eng p of
        Inl e \<Rightarrow> Inl e
      | Inr stab \<Rightarrow>
      case generate_frame_characteristics eng omega p cd of
        Inl e \<Rightarrow> Inl e
      | Inr chars \<Rightarrow>
          Inr \<lparr>omega_result = omega,
               stability = stab,
               confidence = calculate_rendering_confidence omega stab (tau_eff p),
               frame_tau_eff = tau_eff p,
               characteristics = chars,
               observer_alignment = calculate_observer_alignment type_variance eng p cd,
               rendering_timestamp = t_render,
               rft_equation_components =
                 \<lparr>numerator = omega_obs p * chi_liam p,
                  denominator = delta_phi p * upsilon p,
                  equation_balance = equation_balance_of p\<rparr>\<rparr>)"

text \<open>
  The base values the engine divides by. They are non-zero in every state the engine
  reaches: \<open>__init__\<close> sets them to positive constants and the calibration multiplies
  by a factor of at least 0.9.
\<close>

definition bases_nonzero :: "engine \<Rightarrow> bool" where
  "bases_nonzero eng =
     (let cp = current_parameters eng
      in omega_obs_base cp \<noteq> 0 \<and> chi_liam_base cp \<noteq> 0 \<and>
         delta_phi_base cp \<noteq> 0 \<and> upsilon_base cp \<noteq> 0)"

section \<open>Python strings\<close>

text \<open>
  A text is an Isabelle \<open>string\<close>: a list of characters with code points below 256,
  read as Latin-1. The character classes are those of Python's \<open>str\<close> methods and of
  its \<open>re\<close> module on that range.
\<close>

text \<open>\<open>str.isspace\<close>, which is also the class \<open>\s\<close> and what \<open>split()\<close> and \<open>strip()\<close> use.\<close>

definition is_space :: "char \<Rightarrow> bool" where
  "is_space c = (let n = (of_char c :: nat)
                 in (9 \<le> n \<and> n \<le> 13) \<or> (28 \<le> n \<and> n \<le> 32) \<or> n = 133 \<or> n = 160)"

text \<open>The class \<open>\w\<close>: alphanumeric (\<open>str.isalnum\<close>) or the underscore.\<close>

definition is_word :: "char \<Rightarrow> bool" where
  "is_word c = (let n = (of_char c :: nat)
                in (48 \<le> n \<and> n \<le> 57) \<or> (65 \<le> n \<and> n \<le> 90) \<or> n = 95 \<or> (97 \<le> n \<and> n \<le> 122)
                   \<or> n = 170 \<or> n = 178 \<or> n = 179 \<or> n = 181 \<or> n = 185 \<or> n = 186
                   \<or> (188 \<le> n \<and> n \<le> 190) \<or> (192 \<le> n \<and> n \<le> 214)
                   \<or> (216 \<le> n \<and> n \<le> 246) \<or> (248 \<le> n \<and> n \<le> 255))"

text \<open>\<open>str.lower\<close>, one character at a time.\<close>

definition lower_char :: "char \<Rightarrow> char" where
  "lower_char c = (let n = (of_char c :: nat)
                   in if (65 \<le> n \<and> n \<le> 90) \<or> (192 \<le> n \<and> n \<le> 222 \<and> n \<noteq> 215)
                      then char_of (n + 32) else c)"

definition py_lower :: "string \<Rightarrow> string" where
  "py_lower s = map lower_char s"

text \<open>\<open>str.strip()\<close>.\<close>

definition py_strip :: "string \<Rightarrow> string" where
  "py_strip s = rev (dropWhile is_space (rev (dropWhile is_space s)))"

text \<open>
  The maximal runs of characters that are not separators, in order: \<open>cur\<close> is the run
  being read.
\<close>

fun tokens :: "('a \<Rightarrow> bool) \<Rightarrow> 'a list \<Rightarrow> 'a list \<Rightarrow> 'a list list" where
  "tokens sep cur [] = (if cur = [] then [] else [cur])"
| "tokens sep cur (c # cs) =
     (if sep c then (if cur = [] then tokens sep [] cs else cur # tokens sep [] cs)
      else tokens sep (cur @ [c]) cs)"

text \<open>\<open>str.split()\<close>: the words between runs of whitespace.\<close>

definition py_split :: "string \<Rightarrow> string list" where
  "py_split s = tokens is_space [] s"

text \<open>\<open>str.split(d)\<close> for a one-character separator: empty pieces are kept.\<close>

fun split_on :: "'a \<Rightarrow> 'a list \<Rightarrow> 'a list \<Rightarrow> 'a list list" where
  "split_on d cur [] = [cur]"
| "split_on d cur (c # cs) =
     (if c = d then cur # split_on d [] cs else split_on d (cur @ [c]) cs)"

text \<open>\<open>sub in text\<close>.\<close>

fun py_in :: "'a list \<Rightarrow> 'a list \<Rightarrow> bool" where
  "py_in sub [] = (sub = [])"
| "py_in sub (c # cs) = (prefix sub (c # cs) \<or> py_in sub cs)"

text \<open>
  \<open>text.count(sub)\<close>: the occurrences of \<open>sub\<close> found from left to right without
  overlap; \<open>skip\<close> is the number of characters still covered by the last occurrence.
  For an empty \<open>sub\<close> Python counts the gaps.
\<close>

fun count_from :: "'a list \<Rightarrow> nat \<Rightarrow> 'a list \<Rightarrow> nat" where
  "count_from sub skip [] = 0"
| "count_from sub skip (c # cs) =
     (if 0 < skip then count_from sub (skip - 1) cs
      else if prefix sub (c # cs) then 1 + count_from sub (length sub - 1) cs
      else count_from sub 0 cs)"

definition py_count :: "'a list \<Rightarrow> 'a list \<Rightarrow> nat" where
  "py_count text sub = (if sub = [] then length text + 1 else count_from sub 0 text)"

text \<open>
  \<open>len(re.findall(r'\b\w+SUFFIX\b', text))\<close> for a suffix of word characters: a match
  starts and ends at a word boundary and holds word characters only, so it is a whole
  maximal run of word characters that ends with the suffix and is longer than it.
\<close>

definition count_suffix_words :: "string \<Rightarrow> string \<Rightarrow> nat" where
  "count_suffix_words suf text =
     length (filter (\<lambda>w. suffix suf w \<and> length suf < length w)
               (tokens (\<lambda>c. \<not> is_word c) [] text))"

text \<open>
  \<open>np.mean\<close> of a list of integers. NumPy returns NaN for the empty list; \<open>None\<close>
  stands for NaN.
\<close>

definition np_mean :: "nat list \<Rightarrow> real option" where
  "np_mean xs = (if xs = [] then None else Some (real (sum_list xs) / real (length xs)))"

text \<open>
  Python's \<open>min(x, b)\<close> and \<open>max(a, x)\<close> where \<open>x\<close> may be NaN and \<open>a\<close>, \<open>b\<close> are
  numbers. \<open>min\<close> returns its first argument unless the second is smaller, \<open>max\<close>
  returns its first argument unless the second is greater, and every comparison with
  NaN is false: so \<open>min(nan, b)\<close> is NaN and \<open>max(a, nan)\<close> is \<open>a\<close>.
\<close>

definition py_min_nan :: "real option \<Rightarrow> real \<Rightarrow> real option" where
  "py_min_nan x b = (case x of None \<Rightarrow> None | Some v \<Rightarrow> Some (if b < v then b else v))"

definition py_max_nan :: "real \<Rightarrow> real option \<Rightarrow> real" where
  "py_max_nan a x = (case x of None \<Rightarrow> a | Some v \<Rightarrow> if v > a then v else a)"

text \<open>Float addition where the left operand may be NaN.\<close>

definition add_nan :: "real option \<Rightarrow> real \<Rightarrow> real option" where
  "add_nan x b = (case x of None \<Rightarrow> None | Some v \<Rightarrow> Some (v + b))"

section \<open>challenge_processor.py: the challenge processor\<close>

definition challenge_keywords :: "(string \<times> string list) list" where
  "challenge_keywords =
     [(''cognitive'', [''consciousness'', ''mind'', ''thinking'', ''cognitive'', ''awareness'',
         ''perception'', ''brain'']),
      (''theoretical'', [''theory'', ''hypothesis'', ''model'', ''framework'', ''principle'',
         ''law'', ''equation'']),
      (''quantum'', [''quantum'', ''entanglement'', ''superposition'', ''wave'', ''particle'',
         ''measurement'', ''collapse'']),
      (''temporal'', [''time'', ''temporal'', ''causality'', ''chronology'', ''sequence'',
         ''duration'', ''timing'']),
      (''perceptual'', [''perceive'', ''observe'', ''see'', ''hear'', ''sense'', ''experience'',
         ''feel'', ''sensation'']),
      (''consciousness'', [''conscious'', ''unconscious'', ''awareness'', ''subjective'',
         ''experience'', ''qualia'']),
      (''observer'', [''observer'', ''observation'', ''observe'', ''witness'', ''viewpoint'',
         ''perspective'']),
      (''reality'', [''reality'', ''existence'', ''being'', ''ontology'', ''actual'', ''real'',
         ''manifest'']),
      (''synchronization'', [''sync'', ''synchronize'', ''align'', ''coordinate'', ''harmony'',
         ''resonance'']),
      (''ai_alignment'', [''artificial'', ''intelligence'', ''ai'', ''machine'', ''algorithm'',
         ''neural'', ''learning''])]"

definition complexity_indicators :: "(string \<times> string list) list" where
  "complexity_indicators =
     [(''high'', [''multi-dimensional'', ''paradox'', ''infinite'', ''recursive'', ''non-linear'',
         ''chaotic'']),
      (''medium'', [''relationship'', ''interaction'', ''correlation'', ''influence'',
         ''connection'', ''dynamic'']),
      (''low'', [''basic'', ''simple'', ''direct'', ''linear'', ''straightforward'',
         ''elementary''])]"

text \<open>
  \<open>_normalize_text\<close>: lower case, every run of whitespace replaced by one space
  (\<open>re.sub(r'\s+', ' ', ...)\<close>), every character outside \<open>[\w\s?!.,;:]\<close> removed, and
  the ends stripped.
\<close>

fun collapse_ws :: "bool \<Rightarrow> string \<Rightarrow> string" where
  "collapse_ws in_run [] = []"
| "collapse_ws in_run (c # cs) =
     (if is_space c then (if in_run then collapse_ws True cs else CHR 0x20 # collapse_ws True cs)
      else c # collapse_ws False cs)"

definition kept_char :: "char \<Rightarrow> bool" where
  "kept_char c = (is_word c \<or> is_space c \<or> c \<in> set ''?!.,;:'')"

definition normalize_text :: "string \<Rightarrow> string" where
  "normalize_text t = py_strip (filter kept_char (collapse_ws False (py_lower t)))"

text \<open>
  \<open>_analyze_challenge_type\<close>. A keyword scores one for each occurrence in the text and
  a half for each word that contains it and is longer. \<open>max(type_scores, key=...)\<close>
  returns the first type with the highest score.
\<close>

definition keyword_score :: "string \<Rightarrow> string list \<Rightarrow> string \<Rightarrow> real" where
  "keyword_score text ws keyword =
     real (py_count text keyword)
     + 0.5 * real (length (filter (\<lambda>w. py_in keyword w \<and> length w > length keyword) ws))"

definition first_max :: "('k \<times> real) list \<Rightarrow> ('k \<times> real) option" where
  "first_max xs = (case xs of [] \<Rightarrow> None
     | x # rest \<Rightarrow> Some (foldl (\<lambda>best y. if snd y > snd best then y else best) x rest))"

definition analyze_challenge_type :: "string \<Rightarrow> string" where
  "analyze_challenge_type text =
     (let ws = py_split text;
          type_scores = map (\<lambda>(ctype, keywords).
                          (ctype, sum_list (map (keyword_score text ws) keywords)))
                          challenge_keywords
      in case first_max type_scores of
           None \<Rightarrow> ''general''
         | Some (primary_type, score) \<Rightarrow> if score > 0 then primary_type else ''general'')"

text \<open>\<open>_calculate_complexity\<close>. Its steps, in the order of the source.\<close>

definition level_weight :: "string \<Rightarrow> real" where
  "level_weight level =
     (if level = ''high'' then 0.3 else if level = ''medium'' then 0.2
      else if level = ''low'' then - 0.1 else 0)"

definition indicator_score :: "string \<Rightarrow> real" where
  "indicator_score text =
     sum_list (map (\<lambda>(level, indicators).
                 sum_list (map (\<lambda>indicator. if py_in indicator text then level_weight level else 0)
                             indicators))
               complexity_indicators)"

definition avg_sentence_length :: "string \<Rightarrow> real option" where
  "avg_sentence_length text =
     np_mean (map (\<lambda>s. length (py_split s))
                (filter (\<lambda>s. py_strip s \<noteq> []) (split_on (CHR ''.'') [] text)))"

definition technical_patterns :: "string list" where
  "technical_patterns = [''tion'', ''ism'', ''ology'', ''metric'']"

definition technical_score :: "string \<Rightarrow> real" where
  "technical_score text =
     sum_list (map (\<lambda>suf. real (count_suffix_words suf text) * 0.05) technical_patterns)"

definition calculate_complexity :: "string \<Rightarrow> real" where
  "calculate_complexity text =
     (let complexity_score0 = indicator_score text;
          length_complexity = py_min_nan (map_option (\<lambda>a. a / 20) (avg_sentence_length text)) 0.5;
          complexity_score1 =
            (case length_complexity of None \<Rightarrow> None | Some l \<Rightarrow> Some (complexity_score0 + l));
          question_count = py_count text ''?'';
          nested_questions = py_count text ''how'' + py_count text ''why'' + py_count text ''what if'';
          question_complexity = min (real (question_count + nested_questions) * 0.1) 0.3;
          complexity_score2 = add_nan complexity_score1 question_complexity;
          complexity_score3 = add_nan complexity_score2 (min (technical_score text) 0.3)
      in py_max_nan 0.0 (py_min_nan complexity_score3 1.0))"

text \<open>\<open>_calculate_semantic_density\<close>.\<close>

definition stop_words :: "string list" where
  "stop_words = [''the'', ''a'', ''an'', ''and'', ''or'', ''but'', ''in'', ''on'', ''at'', ''to'',
     ''for'', ''of'', ''with'', ''by'', ''is'', ''are'', ''was'', ''were'', ''be'',
     ''been'', ''being'', ''have'', ''has'', ''had'', ''do'', ''does'', ''did'',
     ''will'', ''would'', ''could'', ''should'', ''may'', ''might'', ''can'',
     ''this'', ''that'', ''these'', ''those'', ''i'', ''you'', ''he'', ''she'',
     ''it'', ''we'', ''they'', ''me'', ''him'', ''her'', ''us'', ''them'']"

definition calculate_semantic_density :: "string \<Rightarrow> real" where
  "calculate_semantic_density text =
     (let ws = py_split text;
          wc = length ws
      in if wc = 0 then 0.0
         else
           (let meaningful_words = filter (\<lambda>w. w \<notin> set stop_words \<and> length w > 2) ws;
                unique_meaningful_words = remdups meaningful_words;
                basic_density = real (length unique_meaningful_words) / real wc;
                scientific_word_count =
                  sum_list (map (\<lambda>(category, keywords). sum_list (map (py_count text) keywords))
                              challenge_keywords);
                scientific_bonus = min (real scientific_word_count / real wc) 0.3;
                density = basic_density + scientific_bonus
            in max 0.0 (min density 1.0)))"

text \<open>
  \<open>_calculate_text_entropy\<close>. \<open>char_counts\<close> is the dictionary the first loop builds, in
  insertion order; the second loop runs over its values.
\<close>

definition count_char :: "('a \<times> nat) list \<Rightarrow> 'a \<Rightarrow> ('a \<times> nat) list" where
  \<comment> \<open>\<open>char_counts[char] = char_counts.get(char, 0) + 1\<close>\<close>
  "count_char d c = AList.update c ((case map_of d c of None \<Rightarrow> 0 | Some n \<Rightarrow> n) + 1) d"

definition char_counts :: "'a list \<Rightarrow> ('a \<times> nat) list" where
  "char_counts text = foldl count_char [] text"

definition entropy_step :: "nat \<Rightarrow> real \<Rightarrow> nat \<Rightarrow> real" where
  \<comment> \<open>the body of the loop \<open>for count in char_counts.values()\<close>\<close>
  "entropy_step text_length e count =
     (let probability = real count / real text_length
      in if probability > 0 then e - probability * log 2 probability else e)"

definition calculate_text_entropy :: "'a list \<Rightarrow> real" where
  "calculate_text_entropy text =
     (if text = [] then 0.0
      else
        (let text_length = length text;
             ent = foldl (entropy_step text_length) 0.0 (map snd (char_counts text))
         in min (ent / 4.5) 1.0))"

text \<open>
  The entropy as the specification words it: the Shannon entropy of the distribution of
  the characters, \<open>p c\<close> being the count of \<open>c\<close> over the length of the text.
\<close>

definition char_probability :: "'a list \<Rightarrow> 'a \<Rightarrow> real" where
  "char_probability text c = real (count_list text c) / real (length text)"

definition shannon_entropy :: "'a list \<Rightarrow> real" where
  "shannon_entropy text =
     - (\<Sum>c\<in>set text. char_probability text c * log 2 (char_probability text c))"

text \<open>\<open>_calculate_urgency\<close>.\<close>

definition high_urgency_words :: "string list" where
  "high_urgency_words = [''urgent'', ''immediate'', ''critical'', ''emergency'', ''now'', ''quickly'']"

definition low_urgency_words :: "string list" where
  "low_urgency_words = [''eventually'', ''someday'', ''general'', ''broadly'', ''theoretically'']"

definition calculate_urgency :: "string \<Rightarrow> real" where
  "calculate_urgency text =
     (let urgency_score0 = 0.5;
          urgency_score1 = urgency_score0
            + sum_list (map (\<lambda>w. if py_in w text then 0.2 else 0) high_urgency_words);
          urgency_score2 = urgency_score1
            - sum_list (map (\<lambda>w. if py_in w text then 0.1 else 0) low_urgency_words);
          question_marks = py_count text ''?'';
          urgency_score3 = urgency_score2 + min (real question_marks * 0.1) 0.2;
          exclamations = py_count text ''!'';
          urgency_score4 = urgency_score3 + min (real exclamations * 0.15) 0.3
      in max 0.0 (min urgency_score4 1.0))"

section \<open>The flat JSON log files\<close>

text \<open>
  What a log file holds: it does not exist, it holds a JSON list of entries, or it holds
  anything else (text that \<open>json.load\<close> rejects, or a JSON value that is not a list, on
  which \<open>append\<close> fails). Writing is taken to succeed.
\<close>

datatype 'e log_file = Absent | Json_list "'e list" | Unloadable

text \<open>
  The step every writer starts with:
  \<open>if os.path.exists(log_file): log_data = json.load(f) else: log_data = []\<close>.
\<close>

definition load_log :: "'e log_file \<Rightarrow> py_error + 'e list" where
  "load_log file = (case file of
       Absent \<Rightarrow> Inr []
     | Json_list log_data \<Rightarrow> Inr log_data
     | Unloadable \<Rightarrow> Inl (Raised ''the log is not a JSON list''))"

text \<open>The slice \<open>xs[-n:]\<close> for a positive \<open>n\<close>.\<close>

definition last_n :: "nat \<Rightarrow> 'a list \<Rightarrow> 'a list" where
  "last_n n xs = drop (length xs - n) xs"

text \<open>\<open>text[:n] + '...' if len(text) > n else text\<close>.\<close>

definition shorten :: "nat \<Rightarrow> string \<Rightarrow> string" where
  "shorten n s = (if length s > n then take n s @ ''...'' else s)"

text \<open>
  The names bound in a module: a name that is read and is neither bound there nor a
  builtin raises NameError. \<open>os\<close> and \<open>json\<close> are not builtins.
\<close>

definition lookup_name :: "string list \<Rightarrow> string \<Rightarrow> py_error + unit" where
  "lookup_name module_names n = (if n \<in> set module_names then Inr () else Inl (NameError n))"

text \<open>
  The names \<open>challenge_processor.py\<close> binds: its imports are \<open>re\<close>, \<open>math\<close>,
  \<open>logging\<close>, four names of \<open>typing\<close>, \<open>datetime\<close> and \<open>numpy as np\<close>; it
  imports neither \<open>os\<close> nor \<open>json\<close>.
\<close>

definition challenge_processor_names :: "string list" where
  "challenge_processor_names = [''re'', ''math'', ''logging'', ''Dict'', ''List'', ''Tuple'',
     ''Any'', ''datetime'', ''np'', ''logger'', ''ChallengeProcessor'']"

subsection \<open>observer_logger.py: \<open>_save_observer_log\<close>\<close>

record observer_entry =
  entry_timestamp :: real
  entry_user_id :: int
  entry_username :: string
  entry_challenge_text :: string
  entry_delta_phi :: real
  entry_tau_eff :: real
  entry_omega_obs :: real

text \<open>
  \<open>_save_observer_log\<close>: the file \<open>logs/observer_log.json\<close> after the call. An
  exception inside the \<open>try\<close> is logged and the file is left as it was.
\<close>

definition save_observer_log :: "observer_entry log_file \<Rightarrow> observer_entry \<Rightarrow> observer_entry log_file" where
  "save_observer_log file entry =
     (case load_log file of
        Inl e \<Rightarrow> file
      | Inr log_data \<Rightarrow>
          (let log_data1 = log_data @ [entry];
               log_data2 = (if length log_data1 > 1000 then last_n 1000 log_data1 else log_data1)
           in Json_list log_data2))"

subsection \<open>challenge_processor.py: \<open>_log_theft_flag\<close> and \<open>_log_interference\<close>\<close>

record theft_result =
  alert_triggered :: bool
  equation_matches :: "string list"
  risk_level :: string

record theft_entry =
  theft_timestamp :: string
  theft_user_id :: int
  theft_challenge_text :: string
  theft_equation_matches :: "string list"
  theft_risk_level :: string
  theft_alert_triggered :: bool

text \<open>
  The body of the \<open>try\<close> of \<open>_log_theft_flag\<close>, in a module that binds
  \<open>module_names\<close>: the first statement reads \<open>os\<close>, loading and saving read \<open>json\<close>.
  \<open>open(log_file, 'w')\<close> empties the file before \<open>json.dump\<close> is looked up.
  The result is the file and, when a statement raised, the exception.
\<close>

definition log_theft_flag_body ::
  "string list \<Rightarrow> string \<Rightarrow> theft_entry log_file \<Rightarrow> int \<Rightarrow> string \<Rightarrow> theft_result
     \<Rightarrow> theft_entry log_file \<times> py_error option" where
  "log_theft_flag_body module_names now file uid text theft_data =
     (case lookup_name module_names ''os'' of
        Inl e \<Rightarrow> (file, Some e)
      | Inr _ \<Rightarrow>
      case (if file = Absent then Inr []
            else case lookup_name module_names ''json'' of
                   Inl e \<Rightarrow> Inl e
                 | Inr _ \<Rightarrow> load_log file) of
        Inl e \<Rightarrow> (file, Some e)
      | Inr log_data \<Rightarrow>
          (let entry = \<lparr>theft_timestamp = now, theft_user_id = uid,
                         theft_challenge_text = shorten 200 text,
                         theft_equation_matches = equation_matches theft_data,
                         theft_risk_level = risk_level theft_data,
                         theft_alert_triggered = alert_triggered theft_data\<rparr>;
               log_data1 = log_data @ [entry];
               log_data2 = (if length log_data1 > 500 then last_n 500 log_data1 else log_data1)
           in case lookup_name module_names ''json'' of
                Inl e \<Rightarrow> (Unloadable, Some e)
              | Inr _ \<Rightarrow> (Json_list log_data2, None)))"

text \<open>\<open>_log_theft_flag\<close>: the \<open>except Exception\<close> clause logs the exception and returns.\<close>

definition log_theft_flag ::
  "string list \<Rightarrow> string \<Rightarrow> theft_entry log_file \<Rightarrow> int \<Rightarrow> string \<Rightarrow> theft_result
     \<Rightarrow> theft_entry log_file" where
  "log_theft_flag module_names now file uid text theft_data =
     fst (log_theft_flag_body module_names now file uid text theft_data)"

record interference_entry =
  interference_timestamp :: string
  interference_user_id :: int
  interference_challenge_text :: string
  interference_spike_level :: real
  interference_warning_issued :: bool

text \<open>\<open>_log_interference\<close>, of the same shape, keeping 1000 entries.\<close>

definition log_interference ::
  "string list \<Rightarrow> string \<Rightarrow> interference_entry log_file \<Rightarrow> int \<Rightarrow> string \<Rightarrow> interference_result
     \<Rightarrow> interference_entry log_file" where
  "log_interference module_names now file uid text interference_data =
     (case lookup_name module_names ''os'' of
        Inl e \<Rightarrow> file
      | Inr _ \<Rightarrow>
      case (if file = Absent then Inr []
            else case lookup_name module_names ''json'' of
                   Inl e \<Rightarrow> Inl e
                 | Inr _ \<Rightarrow> load_log file) of
        Inl e \<Rightarrow> file
      | Inr log_data \<Rightarrow>
          (let entry = \<lparr>interference_timestamp = now, interference_user_id = uid,
                         interference_challenge_text = shorten 200 text,
                         interference_spike_level = spike_level interference_data,
                         interference_warning_issued = detected interference_data\<rparr>;
               log_data1 = log_data @ [entry];
               log_data2 = (if length log_data1 > 1000 then last_n 1000 log_data1 else log_data1)
           in case lookup_name module_names ''json'' of
                Inl e \<Rightarrow> Unloadable
              | Inr _ \<Rightarrow> Json_list log_data2))"

subsection \<open>challenge_processor.py: \<open>_detect_signal_interference\<close>\<close>

definition no_interference :: interference_result where
  "no_interference = \<lparr>detected = False, spike_level = 0.0, warning_message = None\<rparr>"

text \<open>The warning text; its first two characters (a warning sign) are written in UTF-8.\<close>

definition interference_warning :: string where
  "interference_warning = [CHR 0xE2, CHR 0x9A, CHR 0xA0, CHR 0xEF, CHR 0xB8, CHR 0x8F]
     @ '' Simulation interference detected in your challenge. Render delay exceeds norm.''"

text \<open>
  The body of the \<open>try\<close> of \<open>_detect_signal_interference\<close>: it reads the observer log
  and, on a spike, writes the interference log. \<open>now\<close> is \<open>datetime.now().isoformat()\<close>.
\<close>

definition detect_signal_interference_body ::
  "string list \<Rightarrow> string \<Rightarrow> observer_entry log_file \<Rightarrow> interference_entry log_file
     \<Rightarrow> string \<Rightarrow> int \<Rightarrow> real \<Rightarrow> py_error + (interference_entry log_file \<times> interference_result)" where
  "detect_signal_interference_body module_names now observer_log interference_log text uid sd =
     (case lookup_name module_names ''os'' of
        Inl e \<Rightarrow> Inl e
      | Inr _ \<Rightarrow>
          if observer_log = Absent then Inr (interference_log, no_interference)
          else
            (case lookup_name module_names ''json'' of
               Inl e \<Rightarrow> Inl e
             | Inr _ \<Rightarrow>
             case load_log observer_log of
               Inl e \<Rightarrow> Inl e
             | Inr log_data \<Rightarrow>
                 (let user_entries = filter (\<lambda>entry. entry_user_id entry = uid) log_data
                  in if length user_entries \<ge> 3 then
                       (let delta_phi_values = map entry_delta_phi (last_n 10 user_entries);
                            mean_delta_phi =
                              sum_list delta_phi_values / real (length delta_phi_values);
                            current_spike = sd * 3.14159
                        in if current_spike > 3 * mean_delta_phi \<and> mean_delta_phi > 0 then
                             (let res = \<lparr>detected = True,
                                          spike_level = current_spike / mean_delta_phi,
                                          warning_message = Some interference_warning\<rparr>
                              in Inr (log_interference module_names now interference_log uid text res,
                                      res))
                           else Inr (interference_log, no_interference))
                     else Inr (interference_log, no_interference))))"

text \<open>
  \<open>_detect_signal_interference\<close>: an exception of the body is caught and logged, and the
  result, still as initialised, is returned.
\<close>

definition detect_signal_interference ::
  "string list \<Rightarrow> string \<Rightarrow> observer_entry log_file \<Rightarrow> interference_entry log_file
     \<Rightarrow> string \<Rightarrow> int \<Rightarrow> real \<Rightarrow> interference_entry log_file \<times> interference_result" where
  "detect_signal_interference module_names now observer_log interference_log text uid sd =
     (case detect_signal_interference_body module_names now observer_log interference_log
             text uid sd of
        Inl e \<Rightarrow> (interference_log, no_interference)
      | Inr r \<Rightarrow> r)"

subsection \<open>challenge_processor.py: \<open>process_challenge\<close>\<close>

text \<open>
  \<open>process_challenge\<close>, in a module that binds \<open>module_names\<close>: the interference log
  after the call and the dictionary returned. The keys \<open>original_text\<close>,
  \<open>discipline\<close>, \<open>question_structure\<close>, \<open>key_concepts\<close>, \<open>observer_focus\<close>,
  \<open>processing_timestamp\<close> and \<open>theft_alert\<close> are left out.
\<close>

definition process_challenge ::
  "string list \<Rightarrow> string \<Rightarrow> observer_entry log_file \<Rightarrow> interference_entry log_file
     \<Rightarrow> string \<Rightarrow> int \<Rightarrow> interference_entry log_file \<times> challenge_data" where
  "process_challenge module_names now observer_log interference_log challenge_text uid =
     (let normalized = normalize_text challenge_text;
          sd = calculate_semantic_density normalized;
          (interference_log1, interference) =
            detect_signal_interference module_names now observer_log interference_log
              normalized uid sd
      in (interference_log1,
          \<lparr>normalized_text = normalized,
           user_id = uid,
           challenge_type = analyze_challenge_type normalized,
           complexity = calculate_complexity normalized,
           semantic_density = sd,
           entropy = calculate_text_entropy normalized,
           urgency = calculate_urgency normalized,
           word_count = length (py_split normalized),
           interference_detected = interference\<rparr>))"

text \<open>
  The test of \<open>handle_challenge\<close> that decides whether the interference warning is added
  to the response:
  \<open>challenge_data.get('interference_detected', {}).get('detected', False)\<close>.
\<close>

definition warning_attached :: "challenge_data \<Rightarrow> bool" where
  "warning_attached cd = detected (interference_detected cd)"

section \<open>response_generator.py: the response generator\<close>

record template =
  intro :: "string list"
  interpretation_texts :: "string list"

text \<open>
  \<open>self.frame_templates\<close>. The pictographs that open the \<open>intro\<close> texts are written
  as their UTF-8 bytes; the rest of each text is as in the source.
\<close>

definition frame_templates :: "(string \<times> template) list" where
  "frame_templates =
     [(''high_coherence'',
        \<lparr>intro =
           [[CHR 0xF0, CHR 0x9F, CHR 0x8C, CHR 0x9F] @ '' **High Coherence Frame Rendered**'',
            [CHR 0xE2, CHR 0x9C, CHR 0xA8] @ '' **Optimal Observer-Reality Alignment Achieved**'',
            [CHR 0xF0, CHR 0x9F, CHR 0x94, CHR 0xAE] @ '' **Maximum Coherence Frame Manifested**''],
         interpretation_texts =
           [''The RFT analysis reveals exceptionally high observer-reality coherence'',
            ''Your challenge manifests optimal synchronization across all parameters'',
            ''The rendered frame demonstrates maximum theoretical alignment'']\<rparr>),
      (''stable_coherence'',
        \<lparr>intro =
           [[CHR 0xE2, CHR 0x9A, CHR 0xA1] @ '' **Stable Coherence Frame Rendered**'',
            [CHR 0xF0, CHR 0x9F, CHR 0x8E, CHR 0xAF] @ '' **Balanced Observer-Reality Interface**'',
            [CHR 0xF0, CHR 0x9F, CHR 0x8C, CHR 0x8A] @ '' **Harmonized Frame Manifestation**''],
         interpretation_texts =
           [''The RFT analysis shows stable observer-reality coherence'',
            ''Your challenge achieves balanced synchronization parameters'',
            ''The rendered frame maintains consistent theoretical stability'']\<rparr>),
      (''moderate_coherence'',
        \<lparr>intro =
           [[CHR 0xE2, CHR 0x9A, CHR 0x96, CHR 0xEF, CHR 0xB8, CHR 0x8F]
              @ '' **Moderate Coherence Frame Rendered**'',
            [CHR 0xF0, CHR 0x9F, CHR 0x94, CHR 0x84] @ '' **Processing Observer-Reality Variance**'',
            [CHR 0xF0, CHR 0x9F, CHR 0x93, CHR 0x8A] @ '' **Standard Frame Manifestation**''],
         interpretation_texts =
           [''The RFT analysis indicates moderate observer-reality coherence'',
            ''Your challenge shows balanced but variable synchronization'',
            ''The rendered frame demonstrates standard theoretical alignment'']\<rparr>),
      (''low_coherence'',
        \<lparr>intro =
           [[CHR 0xF0, CHR 0x9F, CHR 0x8C, CHR 0x80] @ '' **Low Coherence Frame Rendered**'',
            [CHR 0xE2, CHR 0x9A, CHR 0xA0, CHR 0xEF, CHR 0xB8, CHR 0x8F]
              @ '' **Observer-Reality Desynchronization Detected**'',
            [CHR 0xF0, CHR 0x9F, CHR 0x94, CHR 0x8D] @ '' **Analytical Frame Processing**''],
         interpretation_texts =
           [''The RFT analysis reveals challenging observer-reality coherence'',
            ''Your challenge requires enhanced synchronization protocols'',
            ''The rendered frame suggests theoretical realignment needed'']\<rparr>)]"

text \<open>
  \<open>random.choice(seq)\<close>: the element at an index the generator draws below
  \<open>len(seq)\<close>; \<open>k\<close> is the generator's raw draw, reduced modulo the length. An empty
  sequence raises (an IndexError).
\<close>

definition random_choice :: "nat \<Rightarrow> 'a list \<Rightarrow> py_error + 'a" where
  "random_choice k xs =
     (if xs = [] then Inl (Raised ''Cannot choose from an empty sequence'')
      else Inr (xs ! (k mod length xs)))"

text \<open>\<open>s.replace('_', ' ')\<close>.\<close>

definition underscores_to_spaces :: "string \<Rightarrow> string" where
  "underscores_to_spaces s = map (\<lambda>c. if c = CHR ''_'' then CHR '' '' else c) s"

text \<open>
  \<open>_generate_header\<close>. \<open>title\<close> is \<open>str.title\<close> and \<open>fmt4\<close> the float format
  \<open>{:.4f}\<close>, both of the Python library and taken as parameters. The capital omega of
  the last line is written in UTF-8.
\<close>

definition generate_header ::
  "(string \<Rightarrow> string) \<Rightarrow> (real \<Rightarrow> string) \<Rightarrow> nat \<Rightarrow> string \<Rightarrow> string \<Rightarrow> real
     \<Rightarrow> py_error + string" where
  "generate_header title fmt4 k ftype ctype omega =
     (case (case map_of frame_templates ftype of
              Some tmpl \<Rightarrow> random_choice k (intro tmpl)
            | None \<Rightarrow> Inr ([CHR 0xF0, CHR 0x9F, CHR 0x94, CHR 0xAE] @ '' **RFT Frame Rendered**'')) of
        Inl e \<Rightarrow> Inl e
      | Inr intro_text \<Rightarrow>
          (let challenge_spec = [CHR 0x0A] @ ''**Challenge Type:** ''
                 @ underscores_to_spaces (title ctype);
               omega_indicator = [CHR 0x0A] @ ''**Frame Magnitude:** '' @ [CHR 0xCE, CHR 0xA9]
                 @ '' = '' @ fmt4 omega
           in Inr (intro_text @ challenge_spec @ omega_indicator @ [CHR 0x0A])))"

subsection \<open>\<open>_log_challenge_validation\<close>\<close>

record validation_result =
  valid :: bool
  errors :: "string list"
  suggestions :: "string list"
  rft_symbols_found :: "string list"

record validation_entry =
  validation_timestamp :: string
  validation_user_id :: int
  validation_challenge_text :: string
  validation_outcome :: validation_result
  validation_symbols :: "string list"
  validation_valid :: bool

text \<open>The two files of the validator: \<open>validated_challenges.json\<close> and \<open>rejected_challenges.json\<close>.\<close>

record validation_logs =
  validated_challenges :: "validation_entry log_file"
  rejected_challenges :: "validation_entry log_file"

text \<open>The \<open>log_entry\<close> dictionary of \<open>_log_challenge_validation\<close>.\<close>

definition validation_entry_of :: "string \<Rightarrow> string \<Rightarrow> int \<Rightarrow> validation_result \<Rightarrow> validation_entry" where
  "validation_entry_of now challenge_text uid vr =
     \<lparr>validation_timestamp = now, validation_user_id = uid,
      validation_challenge_text = shorten 200 challenge_text,
      validation_outcome = vr,
      validation_symbols = rft_symbols_found vr,
      validation_valid = valid vr\<rparr>"

text \<open>
  \<open>_log_challenge_validation\<close>: the entry goes to the file chosen by
  \<open>validation_result['valid']\<close>; an exception inside the \<open>try\<close> is logged and the files
  are left as they were.
\<close>

definition log_challenge_validation ::
  "string \<Rightarrow> validation_logs \<Rightarrow> string \<Rightarrow> int \<Rightarrow> validation_result \<Rightarrow> validation_logs" where
  "log_challenge_validation now logs challenge_text uid vr =
     (let log_entry = validation_entry_of now challenge_text uid vr;
          file = (if valid vr then validated_challenges logs else rejected_challenges logs)
      in case load_log file of
           Inl e \<Rightarrow> logs
         | Inr log_data \<Rightarrow>
             (let log_data1 = log_data @ [log_entry];
                  log_data2 = (if length log_data1 > 500 then last_n 500 log_data1 else log_data1)
              in if valid vr then logs\<lparr>validated_challenges := Json_list log_data2\<rparr>
                 else logs\<lparr>rejected_challenges := Json_list log_data2\<rparr>))"

section \<open>Reading the logs\<close>

text \<open>The entries a log file stores: none when it is absent or cannot be loaded.\<close>

definition entries_of :: "'e log_file \<Rightarrow> 'e list" where
  "entries_of file = (case file of Json_list xs \<Rightarrow> xs | _ \<Rightarrow> [])"

text \<open>An observer entry as \<open>log_observer_state\<close> writes it at time \<open>t\<close> for a first challenge.\<close>

definition observer_entry_at :: "nat \<Rightarrow> observer_entry" where
  "observer_entry_at t =
     \<lparr>entry_timestamp = real t, entry_user_id = 1, entry_username = ''observer_1'',
      entry_challenge_text = ''what is time?'', entry_delta_phi = 0.0, entry_tau_eff = 1.0,
      entry_omega_obs = 0.0\<rparr>"

text \<open>
  A sequence of calls of \<open>_log_challenge_validation\<close>, each with its timestamp, text,
  user and validation result.
\<close>

fun log_validations ::
  "validation_logs \<Rightarrow> (string \<times> string \<times> int \<times> validation_result) list \<Rightarrow> validation_logs" where
  "log_validations logs [] = logs"
| "log_validations logs ((now, ct, uid, vr) # calls) =
     log_validations (log_challenge_validation now logs ct uid vr) calls"

text \<open>The entry a call writes, and whether it goes to the file of the valid challenges.\<close>

definition call_entry :: "string \<times> string \<times> int \<times> validation_result \<Rightarrow> validation_entry" where
  "call_entry c = (case c of (now, ct, uid, vr) \<Rightarrow> validation_entry_of now ct uid vr)"

definition call_valid :: "string \<times> string \<times> int \<times> validation_result \<Rightarrow> bool" where
  "call_valid c = (case c of (now, ct, uid, vr) \<Rightarrow> valid vr)"

section \<open>Sample inputs\<close>

text \<open>A processed challenge of user 7 with every score at one half.\<close>

definition sample_challenge :: challenge_data where
  "sample_challenge =
     \<lparr>normalized_text = ''what is time?'', user_id = 7, challenge_type = ''general'',
      complexity = 1/2, semantic_density = 1/2, entropy = 1/2, urgency = 1/2, word_count = 3,
      interference_detected = no_interference\<rparr>"

text \<open>
  The outside values of one run of \<open>calculate_rft_parameters\<close>: every clock reading is
  0, the draw for \<open>base_coherence\<close> is 1.0, and the draw for the temporal variance is
  \<open>v\<close>.
\<close>

definition sample_inputs :: "real \<Rightarrow> calc_inputs" where
  "sample_inputs v =
     \<lparr>t_observer = 0, t_phase = 0, t_stamp = 0, r_base_coherence = 1.0, r_variance = v\<rparr>"

section \<open>main.py: the two engine steps of the challenge handler\<close>

text \<open>
  Steps 3 and 4 of \<open>handle_challenge\<close>: \<open>calculate_rft_parameters\<close> followed by
  \<open>render_frame\<close> on the same engine. The result is the engine after both calls, the
  parameters and the frame.
\<close>

definition calculate_and_render ::
  "calc_inputs \<Rightarrow> real \<Rightarrow> real \<Rightarrow> engine \<Rightarrow> challenge_data
     \<Rightarrow> py_error + (engine \<times> rft_params \<times> rendered_frame)" where
  "calculate_and_render inp type_variance t_render eng cd =
     (case calculate_rft_parameters inp eng cd of
        Inl e \<Rightarrow> Inl e
      | Inr (eng1, p) \<Rightarrow>
          (case render_frame type_variance t_render eng1 p cd of
             Inl e \<Rightarrow> Inl e
           | Inr fr \<Rightarrow> Inr (eng1, p, fr)))"

section \<open>Calls that leave the program\<close>

text \<open>
  How a call ends: it returns, it raises, or it never returns (a thread that waits for
  a lock no one releases).
\<close>

datatype 'a ending = Returned 'a | Propagated py_error | Blocked

text \<open>
  The outcome of a call into the Telegram library or into another component, given to
  the model as an input.
\<close>

datatype call_outcome = Returns | Raises py_error | Never_returns

definition nl :: string where
  "nl = [CHR 0x0A]"

section \<open>telegram_safe_sender.py\<close>

text \<open>
  \<open>send_telegram_message\<close>. \<open>Bot(token=bot_token)\<close> is constructed before the
  \<open>try\<close>; \<open>bot.send_message\<close> is inside it.
\<close>

definition send_telegram_message :: "call_outcome \<Rightarrow> call_outcome \<Rightarrow> bool ending" where
  "send_telegram_message bot_constructor send_message =
     (case bot_constructor of
        Raises e \<Rightarrow> Propagated e
      | Never_returns \<Rightarrow> Blocked
      | Returns \<Rightarrow>
          (case send_message of
             Returns \<Rightarrow> Returned True
           | Raises e \<Rightarrow> Returned False
           | Never_returns \<Rightarrow> Blocked))"

section \<open>observer_logger.py: the observer logger and its lock\<close>

text \<open>
  The shared dictionaries of \<open>ObserverLogger\<close> (\<open>sync_events\<close> and
  \<open>coherence_timeline\<close> are deques) and \<open>active_sessions\<close> of \<open>main.py\<close>.
\<close>

datatype shared_dict =
    Active_sessions
  | Observer_interactions
  | Observer_metadata
  | Sync_status_cache
  | Sync_events
  | Coherence_timeline

text \<open>An interaction record; its keys \<open>datetime\<close>, \<open>data\<close> and \<open>session_id\<close> are left out.\<close>

record interaction_record =
  rec_timestamp :: real
  rec_user_id :: int
  rec_type :: string

text \<open>
  An observer's metadata; \<open>interaction_types\<close> is a \<open>defaultdict(int)\<close>. The keys
  \<open>average_complexity\<close> and \<open>synchronization_events\<close> are left out.
\<close>

record observer_meta =
  first_interaction :: real
  total_interactions :: nat
  interaction_types :: "string \<Rightarrow> nat"
  last_activity :: real
  challenge_count :: nat
  success_rate :: real

text \<open>
  The logger as one thread sees it. \<open>lock_held\<close> says whether the thread holds
  \<open>self.lock\<close>, a \<open>threading.Lock\<close>, which is not reentrant. \<open>mutations\<close> is not a
  field of the class: it records every write to a shared dictionary together with
  whether the writing thread held the lock at that moment. The cache is keyed by the
  user id (the source's key is \<open>sync_\<close> followed by the id).
\<close>

record observer_logger =
  observer_interactions :: "int \<rightharpoonup> interaction_record list"
  observer_metadata :: "int \<rightharpoonup> observer_meta"
  sync_status_cache :: "int \<rightharpoonup> (string \<times> real)"
  observer_last_challenge :: "int \<rightharpoonup> real"
  observer_log_file :: "observer_entry log_file"
  lock_held :: bool
  mutations :: "(shared_dict \<times> bool) list"

definition record_mutation :: "shared_dict \<Rightarrow> observer_logger \<Rightarrow> observer_logger" where
  "record_mutation d st = st\<lparr>mutations := mutations st @ [(d, lock_held st)]\<rparr>"

text \<open>\<open>ObserverLogger.__init__\<close>, with the lock free.\<close>

definition new_observer_logger :: observer_logger where
  "new_observer_logger =
     \<lparr>observer_interactions = Map.empty, observer_metadata = Map.empty,
      sync_status_cache = Map.empty, observer_last_challenge = Map.empty,
      observer_log_file = Absent, lock_held = False, mutations = []\<rparr>"

definition max_history_per_observer :: nat where
  "max_history_per_observer = 100"

definition cache_timeout :: real where
  "cache_timeout = 300"

text \<open>
  Reading \<open>self.observer_interactions[user_id]\<close>: the dictionary is a \<open>defaultdict\<close>,
  so reading a missing key stores an empty deque under it.
\<close>

definition read_interactions :: "observer_logger \<Rightarrow> int \<Rightarrow> observer_logger \<times> interaction_record list" where
  "read_interactions st uid =
     (case observer_interactions st uid of
        Some q \<Rightarrow> (st, q)
      | None \<Rightarrow>
          (record_mutation Observer_interactions
             (st\<lparr>observer_interactions := (observer_interactions st)(uid \<mapsto> [])\<rparr>), []))"

text \<open>\<open>_calculate_sync_status\<close>; \<open>now\<close> is the reading of \<open>time.time()\<close>.\<close>

definition calculate_sync_status :: "real \<Rightarrow> observer_logger \<Rightarrow> int \<Rightarrow> observer_logger \<times> string" where
  "calculate_sync_status now st uid =
     (case observer_metadata st uid of
        None \<Rightarrow> (st, ''INITIALIZING'')
      | Some metadata \<Rightarrow>
          (case read_interactions st uid of
             (st1, recent_interactions) \<Rightarrow>
               if recent_interactions = [] then (st1, ''INACTIVE'')
               else
                 (let recent_cutoff = now - 1800;
                      recent_activity =
                        filter (\<lambda>i. rec_timestamp i > recent_cutoff) recent_interactions
                  in if recent_activity = [] then (st1, ''DORMANT'')
                     else
                       (let sr = success_rate metadata;
                            total = total_interactions metadata
                        in (st1,
                            if sr \<ge> 0.8 \<and> total \<ge> 5 then ''SYNCHRONIZED''
                            else if sr \<ge> 0.6 \<and> total \<ge> 3 then ''ALIGNING''
                            else if sr \<ge> 0.4 \<or> total \<ge> 10 then ''STABILIZING''
                            else if total \<ge> 1 then ''CALIBRATING''
                            else ''INITIALIZING'')))))"

text \<open>
  \<open>get_sync_status\<close>: a fresh cache entry is returned; otherwise the status is
  computed and stored in \<open>sync_status_cache\<close>. The method has no \<open>with self.lock\<close>.
  The readings of the clock during one call are taken to be equal.
\<close>

definition get_sync_status :: "real \<Rightarrow> observer_logger \<Rightarrow> int \<Rightarrow> observer_logger \<times> string" where
  "get_sync_status now st uid =
     (let fresh = (case sync_status_cache st uid of
                     Some (status, stamp) \<Rightarrow> if now - stamp < cache_timeout then Some status else None
                   | None \<Rightarrow> None)
      in case fresh of
           Some status \<Rightarrow> (st, status)
         | None \<Rightarrow>
             (case calculate_sync_status now st uid of
                (st1, sync_status) \<Rightarrow>
                  (record_mutation Sync_status_cache
                     (st1\<lparr>sync_status_cache := (sync_status_cache st1)(uid \<mapsto> (sync_status, now))\<rparr>),
                   sync_status)))"

text \<open>\<open>_update_challenge_metrics\<close> and \<open>_update_observer_metadata\<close>.\<close>

definition update_challenge_metrics :: "observer_meta \<Rightarrow> observer_meta" where
  "update_challenge_metrics m =
     (let successful_challenges = interaction_types m ''challenge_complete'';
          total_challenges = challenge_count m
      in if total_challenges > 0
         then m\<lparr>success_rate := real successful_challenges / real total_challenges\<rparr>
         else m)"

definition update_observer_metadata :: "real \<Rightarrow> string \<Rightarrow> observer_meta option \<Rightarrow> observer_meta" where
  "update_observer_metadata now itype old =
     (let m0 = (case old of
                  None \<Rightarrow> \<lparr>first_interaction = now, total_interactions = 0,
                            interaction_types = (\<lambda>t. 0), last_activity = now,
                            challenge_count = 0, success_rate = 0.0\<rparr>
                | Some m \<Rightarrow> m);
          m1 = m0\<lparr>total_interactions := total_interactions m0 + 1,
                  interaction_types := (interaction_types m0)(itype := interaction_types m0 itype + 1),
                  last_activity := now\<rparr>
      in if itype = ''challenge_start'' then m1\<lparr>challenge_count := challenge_count m1 + 1\<rparr>
         else if itype = ''challenge_complete'' then update_challenge_metrics m1
         else m1)"

text \<open>
  \<open>log_observer_state\<close>: the whole body is under \<open>with self.lock\<close>, so a thread that
  already holds the lock waits for ever. \<open>str_int\<close> is Python's \<open>str\<close> on integers.
\<close>

definition log_observer_state ::
  "(int \<Rightarrow> string) \<Rightarrow> real \<Rightarrow> observer_logger \<Rightarrow> int \<Rightarrow> string \<Rightarrow> observer_logger ending" where
  "log_observer_state str_int now st uid challenge_text =
     (if lock_held st then Blocked
      else
        (let st1 = st\<lparr>lock_held := True\<rparr>;
             delta = (case observer_last_challenge st1 uid of
                        None \<Rightarrow> 0.0
                      | Some previous \<Rightarrow> sin ((now - previous) / 3600) * pi)
         in case read_interactions st1 uid of
              (st2, recent_interactions) \<Rightarrow>
                (let username = (if recent_interactions \<noteq> [] then ''observer_'' @ str_int uid
                                 else ''unknown'');
                     observer_entry =
                       \<lparr>entry_timestamp = now, entry_user_id = uid, entry_username = username,
                        entry_challenge_text = shorten 100 challenge_text,
                        entry_delta_phi = delta, entry_tau_eff = 1.0,
                        entry_omega_obs = (if delta \<noteq> 0 then delta / 1.0 else 0.0)\<rparr>;
                     st3 = st2\<lparr>observer_log_file :=
                                  save_observer_log (observer_log_file st2) observer_entry\<rparr>;
                     st4 = st3\<lparr>observer_last_challenge :=
                                  (observer_last_challenge st3)(uid \<mapsto> now)\<rparr>
                 in Returned (st4\<lparr>lock_held := False\<rparr>))))"

text \<open>
  \<open>log_interaction\<close>: under \<open>with self.lock\<close> it appends the record to the observer's
  deque (of at most 100 records), updates the metadata, and for a \<open>challenge_start\<close>
  calls \<open>log_observer_state\<close> while it still holds the lock. The performance counters
  and the line written to the Python logger are left out. Were the inner call to
  return, it would have released the lock, and leaving the outer \<open>with\<close> would raise.
\<close>

definition log_interaction ::
  "(int \<Rightarrow> string) \<Rightarrow> real \<Rightarrow> observer_logger \<Rightarrow> int \<Rightarrow> string \<Rightarrow> string \<Rightarrow> observer_logger ending" where
  "log_interaction str_int now st uid itype payload =
     (if lock_held st then Blocked
      else
        (let st1 = st\<lparr>lock_held := True\<rparr>;
             interaction = \<lparr>rec_timestamp = now, rec_user_id = uid, rec_type = itype\<rparr>;
             history = (case observer_interactions st1 uid of None \<Rightarrow> [] | Some q \<Rightarrow> q);
             st2 = record_mutation Observer_interactions
                     (st1\<lparr>observer_interactions := (observer_interactions st1)
                            (uid \<mapsto> last_n max_history_per_observer (history @ [interaction]))\<rparr>);
             st3 = record_mutation Observer_metadata
                     (st2\<lparr>observer_metadata := (observer_metadata st2)
                            (uid \<mapsto> update_observer_metadata now itype (observer_metadata st2 uid))\<rparr>)
         in if itype = ''challenge_start'' then
              (case log_observer_state str_int now st3 uid payload of
                 Returned st4 \<Rightarrow> Propagated (Raised ''release unlocked lock'')
               | Propagated e \<Rightarrow> Propagated e
               | Blocked \<Rightarrow> Blocked)
            else Returned (st3\<lparr>lock_held := False\<rparr>)))"

section \<open>main.py: \<open>handle_challenge\<close>\<close>

text \<open>
  What the handler does that can be seen from outside, in order. Calls of the Python
  \<open>logger\<close> are left out.
\<close>

datatype action =
    Reply string
  | Edit string
  | Log_interaction string
  | Run_pipeline
  | Acquire_session_lock
  | Set_session string
  | Release_session_lock

text \<open>
  The outcomes of the calls \<open>handle_challenge\<close> makes outside the modelled modules:
  into the Telegram library, and into the module \<open>utils\<close>, taken as given
  (\<open>validate_challenge\<close>). \<open>pipeline\<close> is what steps 2 to 8 of the handler compute
  (\<open>process_challenge\<close>, \<open>calculate_rft_parameters\<close>, \<open>render_frame\<close>,
  \<open>render_simulation\<close>, \<open>process_observer_memory\<close>, \<open>generate_response\<close>,
  \<open>format_response\<close>): the formatted response, or the first exception one of them
  raises. The calls of \<open>observer_logger.log_interaction\<close> are not among these
  outcomes: they are calls of \<open>log_interaction\<close> above, on the logger's state.
\<close>

record handler_calls =
  validate_challenge :: "py_error + (bool \<times> string)"
  reply_to :: call_outcome
  omega_enforcer :: validation_result
  pipeline :: "py_error + string"
  edit_message_text :: call_outcome
  error_edit_message_text :: call_outcome

text \<open>The texts of the handler; the pictographs and bullets are written in UTF-8.\<close>

definition empty_challenge_message :: string where
  "empty_challenge_message = [CHR 0xE2, CHR 0x9D, CHR 0x8C]
     @ '' Please provide a challenge after the command.'' @ nl
     @ ''Example: /challenge How does consciousness affect quantum states?''"

definition validation_failed_message :: "string \<Rightarrow> string" where
  "validation_failed_message reason =
     [CHR 0xE2, CHR 0x9D, CHR 0x8C] @ '' Challenge validation failed: '' @ reason"

definition processing_message :: string where
  "processing_message = [CHR 0xF0, CHR 0x9F, CHR 0x94, CHR 0x84]
     @ '' RFT Engine Processing...'' @ nl @ nl @ ''Calculating observer parameters...''"

definition bullet_lines :: "string list \<Rightarrow> string" where
  "bullet_lines xs = concat (map (\<lambda>x. [CHR 0xE2, CHR 0x80, CHR 0xA2] @ '' '' @ x @ nl) xs)"

definition enforcer_message :: "validation_result \<Rightarrow> string" where
  "enforcer_message vr =
     [CHR 0xE2, CHR 0x9D, CHR 0x8C] @ '' Challenge validation failed:'' @ nl @ nl
     @ bullet_lines (errors vr)
     @ (if suggestions vr \<noteq> [] then nl @ ''Suggestions:'' @ nl @ bullet_lines (suggestions vr)
        else [])"

definition error_response :: "py_error \<Rightarrow> string" where
  "error_response e =
     nl @ [CHR 0xE2, CHR 0x9D, CHR 0x8C] @ '' **RFT Processing Error**'' @ nl @ nl
     @ ''An error occurred while rendering your challenge frame.'' @ nl @ nl
     @ ''**Error Details:** `'' @ str_of e @ ''`'' @ nl @ nl
     @ ''**Troubleshooting:**'' @ nl
     @ ''- Ensure your challenge is clearly formulated'' @ nl
     @ ''- Try rephrasing with more specific parameters'' @ nl
     @ ''- Check if the challenge falls within supported categories'' @ nl @ nl
     @ ''Please try again with a refined challenge.'' @ nl @ ''        ''"

text \<open>How the body of the \<open>try\<close> ends, with the logger's state where it goes on.\<close>

datatype body_end = Finished observer_logger | Failed py_error observer_logger | Stuck

text \<open>
  The body of the \<open>try\<close>: the session is created under \<open>session_lock\<close>, the challenge
  validated, the pipeline run once, the processing message edited, the completion
  logged and the session updated. \<open>safe_format\<close> is a function of \<open>utils\<close>, taken as a
  parameter; \<open>str_int\<close> and \<open>now\<close> are those of the logger, \<open>lg\<close> its state. The
  result is what was done and how the body ended.
\<close>

definition try_body ::
  "(string \<Rightarrow> string) \<Rightarrow> (int \<Rightarrow> string) \<Rightarrow> real \<Rightarrow> handler_calls \<Rightarrow> observer_logger
     \<Rightarrow> int \<Rightarrow> string \<Rightarrow> action list \<times> body_end" where
  "try_body safe_format str_int now calls lg uid challenge_text =
     (let created = [Acquire_session_lock, Set_session ''processing'', Release_session_lock]
      in if \<not> valid (omega_enforcer calls) then
           (case edit_message_text calls of
              Returns \<Rightarrow>
                (created @ [Edit (safe_format (enforcer_message (omega_enforcer calls)))],
                 Finished lg)
            | Raises e \<Rightarrow> (created, Failed e lg)
            | Never_returns \<Rightarrow> (created, Stuck))
         else
           (case pipeline calls of
              Inl e \<Rightarrow> (created @ [Run_pipeline], Failed e lg)
            | Inr formatted_response \<Rightarrow>
                (case edit_message_text calls of
                   Raises e \<Rightarrow> (created @ [Run_pipeline], Failed e lg)
                 | Never_returns \<Rightarrow> (created @ [Run_pipeline], Stuck)
                 | Returns \<Rightarrow>
                     (let edited = created @ [Run_pipeline, Edit (safe_format formatted_response)]
                      in case log_interaction str_int now lg uid ''challenge_complete''
                                challenge_text of
                           Propagated e \<Rightarrow> (edited, Failed e lg)
                         | Blocked \<Rightarrow> (edited, Stuck)
                         | Returned lg1 \<Rightarrow>
                             (edited @ [Log_interaction ''challenge_complete'',
                                        Acquire_session_lock, Set_session ''completed'',
                                        Release_session_lock],
                              Finished lg1)))))"

text \<open>
  The \<open>except Exception as e\<close> clause: it edits the processing message to the error
  text, logs a \<open>challenge_error\<close> interaction and marks the session, in this order and
  with no \<open>try\<close> of its own, so an exception of its first two calls leaves the handler.
\<close>

definition except_clause ::
  "(string \<Rightarrow> string) \<Rightarrow> (int \<Rightarrow> string) \<Rightarrow> real \<Rightarrow> handler_calls \<Rightarrow> py_error
     \<Rightarrow> observer_logger \<Rightarrow> int \<Rightarrow> string \<Rightarrow> action list \<times> observer_logger ending" where
  "except_clause safe_format str_int now calls e lg uid challenge_text =
     (case error_edit_message_text calls of
        Raises e2 \<Rightarrow> ([], Propagated e2)
      | Never_returns \<Rightarrow> ([], Blocked)
      | Returns \<Rightarrow>
          (let edited = [Edit (safe_format (error_response e))]
           in case log_interaction str_int now lg uid ''challenge_error'' challenge_text of
                Propagated e2 \<Rightarrow> (edited, Propagated e2)
              | Blocked \<Rightarrow> (edited, Blocked)
              | Returned lg1 \<Rightarrow>
                  (edited @ [Log_interaction ''challenge_error'', Acquire_session_lock,
                             Set_session ''error'', Release_session_lock],
                   Returned lg1)))"

text \<open>One call of a reply that ends the handler.\<close>

definition final_reply ::
  "handler_calls \<Rightarrow> observer_logger \<Rightarrow> string \<Rightarrow> action list \<times> observer_logger ending" where
  "final_reply calls lg msg =
     (case reply_to calls of
        Returns \<Rightarrow> ([Reply msg], Returned lg)
      | Raises e \<Rightarrow> ([], Propagated e)
      | Never_returns \<Rightarrow> ([], Blocked))"

text \<open>
  \<open>handle_challenge\<close> on a message of user \<open>uid\<close> with the text \<open>message_text\<close>,
  with the logger in the state \<open>lg\<close>: what it does, and how it ends. The start of the
  challenge is logged by \<open>log_interaction\<close> before the processing message is sent and
  before the \<open>try\<close>. The readings of the clock during one call are taken to be equal.
  (The file \<open>main.py\<close> goes on, after its \<open>main\<close>, with a second program whose line
  728 is not valid Python; the function is modelled as it is written.)
\<close>

definition handle_challenge ::
  "(string \<Rightarrow> string) \<Rightarrow> (int \<Rightarrow> string) \<Rightarrow> real \<Rightarrow> handler_calls \<Rightarrow> observer_logger
     \<Rightarrow> int \<Rightarrow> string \<Rightarrow> action list \<times> observer_logger ending" where
  "handle_challenge safe_format str_int now calls lg uid message_text =
     (let challenge_text = py_strip (drop 10 message_text)
      in if challenge_text = [] then final_reply calls lg (safe_format empty_challenge_message)
         else
           (case validate_challenge calls of
              Inl e \<Rightarrow> ([], Propagated e)
            | Inr (ok, reason) \<Rightarrow>
                if \<not> ok then final_reply calls lg (validation_failed_message reason)
                else
                  (case log_interaction str_int now lg uid ''challenge_start'' challenge_text of
                     Propagated e \<Rightarrow> ([], Propagated e)
                   | Blocked \<Rightarrow> ([], Blocked)
                   | Returned lg1 \<Rightarrow>
                       (case reply_to calls of
                          Raises e \<Rightarrow> ([Log_interaction ''challenge_start''], Propagated e)
                        | Never_returns \<Rightarrow> ([Log_interaction ''challenge_start''], Blocked)
                        | Returns \<Rightarrow>
                            (let started = [Log_interaction ''challenge_start'',
                                            Reply (safe_format processing_message)]
                             in case try_body safe_format str_int now calls lg1 uid
                                       challenge_text of
                                  (acts, Finished lg2) \<Rightarrow> (started @ acts, Returned lg2)
                                | (acts, Stuck) \<Rightarrow> (started @ acts, Blocked)
                                | (acts, Failed e lg2) \<Rightarrow>
                                    (case except_clause safe_format str_int now calls e lg2 uid
                                            challenge_text of
                                       (handled, how) \<Rightarrow> (started @ acts @ handled, how)))))))"


text \<open>
  Whether every write to \<open>active_sessions\<close> in a handler's actions is made between an
  acquisition and the release of \<open>session_lock\<close>; \<open>held\<close> says whether the lock is
  held at the start.
\<close>

fun session_writes_guarded :: "bool \<Rightarrow> action list \<Rightarrow> bool" where
  "session_writes_guarded held [] = True"
| "session_writes_guarded held (Acquire_session_lock # rest) = session_writes_guarded True rest"
| "session_writes_guarded held (Release_session_lock # rest) = session_writes_guarded False rest"
| "session_writes_guarded held (Set_session s # rest) = (held \<and> session_writes_guarded held rest)"
| "session_writes_guarded held (a # rest) = session_writes_guarded held rest"

section \<open>The engine: division and the core equation\<close>

lemma py_div_Inr: "b \<noteq> 0 \<Longrightarrow> py_div a b = Inr (a / b)"
  by (simp add: py_div_def)

lemma py_div_zero: "py_div a 0 = Inl ZeroDivisionError"
  by (simp add: py_div_def)

lemma bases_nonzero_init: "bases_nonzero init_engine"
  by (simp add: bases_nonzero_def init_engine_def init_parameters_def)

text \<open>The calibration keeps the base values away from zero: its factors are at least 0.9.\<close>

lemma bases_nonzero_calibrate:
  assumes "bases_nonzero eng"
  shows "bases_nonzero (calibrate_base_parameters t eng)"
proof -
  have s: "- 1 \<le> sin (t / 86400)" by simp
  from s have a: "1 + sin (t / 86400) * 0.1 \<noteq> 0" by linarith
  from s have b: "1 + sin (t / 86400) * 0.1 * 0.5 \<noteq> 0" by linarith
  from assms a b show ?thesis
    by (simp add: bases_nonzero_def calibrate_base_parameters_def Let_def)
qed

lemma bases_nonzero_initialize:
  "bases_nonzero eng \<Longrightarrow> bases_nonzero (initialize t eng)"
  unfolding initialize_def
  by (rule bases_nonzero_calibrate) (simp add: bases_nonzero_def)






section \<open>The processor: text entropy\<close>

lemma count_char_map_of:
  "map_of (count_char d c) = (map_of d)(c \<mapsto> (case map_of d c of None \<Rightarrow> 0 | Some n \<Rightarrow> n) + 1)"
  unfolding count_char_def by (rule update_conv')

lemma count_char_distinct: "distinct (map fst d) \<Longrightarrow> distinct (map fst (count_char d c))"
  unfolding count_char_def by (rule distinct_update)

lemma count_step_map_of:
  "map_of (foldl count_char d0 cs) c
   = (if c \<in> set cs
      then Some (count_list cs c + (case map_of d0 c of None \<Rightarrow> 0 | Some n \<Rightarrow> n))
      else map_of d0 c)"
proof (induction cs arbitrary: d0)
  case Nil
  then show ?case by simp
next
  case (Cons x xs)
  show ?case
    by (simp add: Cons.IH count_char_map_of split: option.splits)
qed

lemma count_step_distinct:
  "distinct (map fst d0) \<Longrightarrow> distinct (map fst (foldl count_char d0 cs))"
  by (induction cs arbitrary: d0) (simp_all add: count_char_distinct)

lemma char_counts_map_of:
  "map_of (char_counts cs) c = (if c \<in> set cs then Some (count_list cs c) else None)"
  by (simp add: char_counts_def count_step_map_of)

lemma char_counts_distinct: "distinct (map fst (char_counts cs))"
  by (simp add: char_counts_def count_step_distinct)

lemma char_counts_keys: "fst ` set (char_counts cs) = set cs"
proof -
  have "dom (map_of (char_counts cs)) = set cs"
    by (auto simp: char_counts_map_of dom_def)
  then show ?thesis by (simp add: dom_map_of_conv_image_fst)
qed

lemma sum_list_values:
  assumes "distinct (map fst al)"
  shows "sum_list (map (\<lambda>kv. g (snd kv)) al) = (\<Sum>k\<in>fst ` set al. g (the (map_of al k)))"
proof -
  have d: "distinct al" using assms by (simp add: distinct_map)
  have inj: "inj_on fst (set al)" using assms by (simp add: distinct_map)
  have "sum_list (map (\<lambda>kv. g (snd kv)) al) = (\<Sum>kv\<in>set al. g (snd kv))"
    using d by (simp add: sum_list_distinct_conv_sum_set)
  also have "\<dots> = (\<Sum>kv\<in>set al. g (the (map_of al (fst kv))))"
    using assms by (intro sum.cong) auto
  also have "\<dots> = (\<Sum>k\<in>fst ` set al. g (the (map_of al k)))"
    using inj by (simp add: sum.reindex)
  finally show ?thesis .
qed

lemma entropy_step_eq:
  "entropy_step n e m = e - (real m / real n) * log 2 (real m / real n)"
proof -
  have "0 \<le> real m / real n" by simp
  then consider "real m / real n = 0" | "real m / real n > 0" by linarith
  then show ?thesis
  proof cases
    case 1
    then show ?thesis unfolding entropy_step_def Let_def by auto
  next
    case 2
    then show ?thesis unfolding entropy_step_def Let_def by simp
  qed
qed

lemma entropy_loop:
  "foldl (entropy_step n) a ns
   = a - sum_list (map (\<lambda>m. (real m / real n) * log 2 (real m / real n)) ns)"
proof (induction ns arbitrary: a)
  case Nil
  then show ?case by simp
next
  case (Cons m ms)
  have "foldl (entropy_step n) a (m # ms) = foldl (entropy_step n) (entropy_step n a m) ms"
    by simp
  also have "\<dots> = entropy_step n a m
      - sum_list (map (\<lambda>m. (real m / real n) * log 2 (real m / real n)) ms)"
    by (rule Cons.IH)
  also have "\<dots> = a - sum_list (map (\<lambda>m. (real m / real n) * log 2 (real m / real n)) (m # ms))"
    using entropy_step_eq [of n a m] by simp
  finally show ?case .
qed

lemma log2_half: "log 2 (1/2) = - 1"
  by (simp add: log_divide)

lemma entropy_fold_shannon:
  "foldl (entropy_step (length cs)) 0 (map snd (char_counts cs)) = shannon_entropy cs"
proof -
  let ?g = "\<lambda>m. (real m / real (length cs)) * log 2 (real m / real (length cs))"
  have "sum_list (map ?g (map snd (char_counts cs)))
        = sum_list (map (\<lambda>kv. ?g (snd kv)) (char_counts cs))"
    by (simp add: comp_def)
  also have "\<dots> = (\<Sum>k\<in>fst ` set (char_counts cs). ?g (the (map_of (char_counts cs) k)))"
    by (rule sum_list_values [OF char_counts_distinct])
  also have "\<dots> = (\<Sum>c\<in>set cs. ?g (count_list cs c))"
    by (simp add: char_counts_keys char_counts_map_of)
  finally have s: "sum_list (map ?g (map snd (char_counts cs))) = - shannon_entropy cs"
    by (simp add: shannon_entropy_def char_probability_def)
  show ?thesis
    unfolding entropy_loop s by simp
qed

text \<open>Every term of the Shannon sum is at most zero, so the entropy is not negative.\<close>

lemma shannon_entropy_nonneg: "0 \<le> shannon_entropy cs"
proof -
  have "(\<Sum>c\<in>set cs. char_probability cs c * log 2 (char_probability cs c)) \<le> 0"
  proof (rule sum_nonpos)
    fix c assume "c \<in> set cs"
    have le: "count_list cs c \<le> length cs" by (rule count_le_length)
    have p0: "0 \<le> char_probability cs c" by (simp add: char_probability_def)
    have p1: "char_probability cs c \<le> 1"
      using le by (simp add: char_probability_def divide_le_eq_1)
    show "char_probability cs c * log 2 (char_probability cs c) \<le> 0"
    proof (cases "char_probability cs c = 0")
      case True
      then show ?thesis by simp
    next
      case False
      with p0 have "0 < char_probability cs c" by simp
      with p1 have "log 2 (char_probability cs c) \<le> 0" by simp
      with p0 show ?thesis by (simp add: mult_nonneg_nonpos)
    qed
  qed
  then show ?thesis by (simp add: shannon_entropy_def)
qed

text \<open>
  Claim C4. For every text, \<open>_calculate_text_entropy\<close> returns 0.0 for the empty text
  and otherwise \<open>min(H / 4.5, 1.0)\<close>, where \<open>H\<close> is the Shannon entropy of the
  character frequencies: the dictionary the code builds and the loop over its values
  compute the sum over the distinct characters.
\<close>

theorem calculate_text_entropy_shannon:
  "calculate_text_entropy cs = (if cs = [] then 0.0 else min (shannon_entropy cs / 4.5) 1.0)"
  by (simp add: calculate_text_entropy_def Let_def entropy_fold_shannon)

text \<open>At the text \<open>ab\<close> the entropy is one bit, and the result is \<open>1 / 4.5\<close>.\<close>

theorem calculate_text_entropy_shannon_witness:
  "calculate_text_entropy ''ab'' = 2/9 \<and> calculate_text_entropy ('''' :: string) = 0"
  using calculate_text_entropy_shannon [of "''ab''"]
    calculate_text_entropy_shannon [of "'''' :: string"]
  by (simp add: shannon_entropy_def char_probability_def log2_half)

section \<open>The engine: the unguarded division\<close>

text \<open>
  Claim C9. \<open>render_frame\<close> divides by \<open>delta_phi * upsilon\<close> with no guard: when the
  product is zero the division, and with it \<open>render_frame\<close>, raises ZeroDivisionError;
  when it is not zero the division is defined. \<open>_calculate_effective_timing\<close> and the
  \<open>equation_balance\<close> expression both use 0.001 in place of a zero denominator.
\<close>

theorem render_frame_unguarded_division:
  "(delta_phi p * upsilon p = 0 \<longrightarrow>
      core_equation p = Inl ZeroDivisionError
      \<and> render_frame tv t eng p cd = Inl ZeroDivisionError)
   \<and> (delta_phi p * upsilon p \<noteq> 0 \<longrightarrow>
      core_equation p = Inr ((omega_obs p * chi_liam p) / (delta_phi p * upsilon p)))
   \<and> (dphi * ups = 0 \<and> chi_liam_base (current_parameters eng) \<noteq> 0 \<longrightarrow>
      calculate_effective_timing eng om chi dphi ups
        = Inr ((om * chi) / 0.001 * min (chi / chi_liam_base (current_parameters eng)) 2.0
               * tau_eff_base (base_parameters eng)))
   \<and> (delta_phi p * upsilon p = 0 \<longrightarrow>
      equation_balance_of p = (omega_obs p * chi_liam p) / 0.001)"
  by (auto simp: render_frame_def core_equation_def py_div_def calculate_effective_timing_def
      equation_balance_of_def Let_def)

text \<open>
  The theorem at the fresh engine: with \<open>upsilon = 0\<close> the frame is not rendered, while
  the effective timing and the balance expression divide by 0.001; with the parameters
  2, 3, 4 and 1/2 the division gives 3.
\<close>

theorem render_frame_unguarded_division_witness:
  "render_frame 0 0 init_engine
     \<lparr>omega_obs = 2, chi_liam = 3, delta_phi = 4, upsilon = 0, tau_eff = 1,
      calculation_timestamp = 0, observer_id = 7\<rparr>
     \<lparr>normalized_text = ''what is time?'', user_id = 7, challenge_type = ''general'',
      complexity = 1/2, semantic_density = 1/2, entropy = 1/2, urgency = 1/2, word_count = 3,
      interference_detected = no_interference\<rparr> = Inl ZeroDivisionError
   \<and> core_equation \<lparr>omega_obs = 2, chi_liam = 3, delta_phi = 4, upsilon = 1/2, tau_eff = 1,
      calculation_timestamp = 0, observer_id = 7\<rparr> = Inr 3
   \<and> calculate_effective_timing init_engine 2 3 4 0 = Inr (6000 * (3 / 2.718))
   \<and> equation_balance_of \<lparr>omega_obs = 2, chi_liam = 3, delta_phi = 4, upsilon = 0, tau_eff = 1,
      calculation_timestamp = 0, observer_id = 7\<rparr> = 6000"
  using render_frame_unguarded_division
      [of "\<lparr>omega_obs = 2, chi_liam = 3, delta_phi = 4, upsilon = 0, tau_eff = 1,
            calculation_timestamp = 0, observer_id = 7\<rparr>" 0 0 init_engine
          "\<lparr>normalized_text = ''what is time?'', user_id = 7, challenge_type = ''general'',
            complexity = 1/2, semantic_density = 1/2, entropy = 1/2, urgency = 1/2,
            word_count = 3, interference_detected = no_interference\<rparr>" 4 0 2 3]
    render_frame_unguarded_division
      [of "\<lparr>omega_obs = 2, chi_liam = 3, delta_phi = 4, upsilon = 1/2, tau_eff = 1,
            calculation_timestamp = 0, observer_id = 7\<rparr>" 0 0 init_engine
          "\<lparr>normalized_text = ''what is time?'', user_id = 7, challenge_type = ''general'',
            complexity = 1/2, semantic_density = 1/2, entropy = 1/2, urgency = 1/2,
            word_count = 3, interference_detected = no_interference\<rparr>" 4 0 2 3]
  by (simp add: init_engine_def init_parameters_def)

section \<open>The response header\<close>

lemma frame_type_has_template:
  "\<exists>tmpl. map_of frame_templates (determine_frame_type omega p) = Some tmpl \<and> intro tmpl \<noteq> []"
  by (simp add: determine_frame_type_def frame_templates_def)

text \<open>
  Claim C5. \<open>_determine_frame_type\<close> returns \<open>high_coherence\<close> exactly when
  \<open>\<Omega> > 2.0\<close>, \<open>stable_coherence\<close> exactly when \<open>1.0 < \<Omega> \<le> 2.0\<close>,
  \<open>moderate_coherence\<close> exactly when \<open>0.5 < \<Omega> \<le> 1.0\<close> and \<open>low_coherence\<close>
  otherwise; and for that frame type \<open>_generate_header\<close> returns a header whose intro is
  one of the \<open>intro\<close> texts of the template stored under that very key, followed by
  the challenge type and the frame magnitude.
\<close>

theorem frame_type_thresholds_and_header:
  "(determine_frame_type omega p = ''high_coherence'' \<longleftrightarrow> omega > 2.0)
   \<and> (determine_frame_type omega p = ''stable_coherence'' \<longleftrightarrow> 1.0 < omega \<and> omega \<le> 2.0)
   \<and> (determine_frame_type omega p = ''moderate_coherence'' \<longleftrightarrow> 0.5 < omega \<and> omega \<le> 1.0)
   \<and> (determine_frame_type omega p = ''low_coherence'' \<longleftrightarrow> omega \<le> 0.5)
   \<and> (\<exists>tmpl i. map_of frame_templates (determine_frame_type omega p) = Some tmpl
          \<and> i < length (intro tmpl)
          \<and> generate_header title fmt4 k (determine_frame_type omega p) ctype omega
              = Inr (intro tmpl ! i
                     @ [CHR 0x0A] @ ''**Challenge Type:** '' @ underscores_to_spaces (title ctype)
                     @ [CHR 0x0A] @ ''**Frame Magnitude:** '' @ [CHR 0xCE, CHR 0xA9] @ '' = ''
                     @ fmt4 omega @ [CHR 0x0A]))"
proof -
  have thresholds:
    "(determine_frame_type omega p = ''high_coherence'' \<longleftrightarrow> omega > 2.0)
     \<and> (determine_frame_type omega p = ''stable_coherence'' \<longleftrightarrow> 1.0 < omega \<and> omega \<le> 2.0)
     \<and> (determine_frame_type omega p = ''moderate_coherence'' \<longleftrightarrow> 0.5 < omega \<and> omega \<le> 1.0)
     \<and> (determine_frame_type omega p = ''low_coherence'' \<longleftrightarrow> omega \<le> 0.5)"
    by (auto simp: determine_frame_type_def)
  obtain tmpl where t: "map_of frame_templates (determine_frame_type omega p) = Some tmpl"
    and ne: "intro tmpl \<noteq> []"
    using frame_type_has_template by blast
  have lt: "k mod length (intro tmpl) < length (intro tmpl)" using ne by simp
  have "generate_header title fmt4 k (determine_frame_type omega p) ctype omega
        = Inr (intro tmpl ! (k mod length (intro tmpl))
               @ [CHR 0x0A] @ ''**Challenge Type:** '' @ underscores_to_spaces (title ctype)
               @ [CHR 0x0A] @ ''**Frame Magnitude:** '' @ [CHR 0xCE, CHR 0xA9] @ '' = ''
               @ fmt4 omega @ [CHR 0x0A])"
    using ne by (simp add: generate_header_def t random_choice_def Let_def)
  with t lt have "\<exists>tmpl i. map_of frame_templates (determine_frame_type omega p) = Some tmpl
          \<and> i < length (intro tmpl)
          \<and> generate_header title fmt4 k (determine_frame_type omega p) ctype omega
              = Inr (intro tmpl ! i
                     @ [CHR 0x0A] @ ''**Challenge Type:** '' @ underscores_to_spaces (title ctype)
                     @ [CHR 0x0A] @ ''**Frame Magnitude:** '' @ [CHR 0xCE, CHR 0xA9] @ '' = ''
                     @ fmt4 omega @ [CHR 0x0A])"
    by blast
  with thresholds show ?thesis by blast
qed

text \<open>
  The theorem at \<open>\<Omega> = 3\<close>, with the draw 4: the header opens with the second intro of
  the \<open>high_coherence\<close> template.
\<close>

theorem frame_type_thresholds_and_header_witness:
  "determine_frame_type 3
       \<lparr>omega_obs = 2, chi_liam = 3, delta_phi = 1, upsilon = 2, tau_eff = 1,
        calculation_timestamp = 0, observer_id = 7\<rparr> = ''high_coherence''
   \<and> generate_header (\<lambda>s. s) (\<lambda>x. ''3.0000'') 4
       (determine_frame_type 3
          \<lparr>omega_obs = 2, chi_liam = 3, delta_phi = 1, upsilon = 2, tau_eff = 1,
           calculation_timestamp = 0, observer_id = 7\<rparr>) ''quantum'' 3
       = Inr ([CHR 0xE2, CHR 0x9C, CHR 0xA8] @ '' **Optimal Observer-Reality Alignment Achieved**''
              @ [CHR 0x0A] @ ''**Challenge Type:** quantum''
              @ [CHR 0x0A] @ ''**Frame Magnitude:** '' @ [CHR 0xCE, CHR 0xA9] @ '' = 3.0000''
              @ [CHR 0x0A])"
proof -
  have h: "determine_frame_type 3
       \<lparr>omega_obs = 2, chi_liam = 3, delta_phi = 1, upsilon = 2, tau_eff = 1,
        calculation_timestamp = 0, observer_id = 7\<rparr> = ''high_coherence''"
    using frame_type_thresholds_and_header
      [of 3 "\<lparr>omega_obs = 2, chi_liam = 3, delta_phi = 1, upsilon = 2, tau_eff = 1,
        calculation_timestamp = 0, observer_id = 7\<rparr>"] by simp
  show ?thesis
    unfolding h
    by (simp add: generate_header_def frame_templates_def random_choice_def
        underscores_to_spaces_def)
qed

section \<open>The processor: signal interference\<close>

lemma os_not_bound: "lookup_name challenge_processor_names ''os'' = Inl (NameError ''os'')"
  by (simp add: lookup_name_def challenge_processor_names_def)

text \<open>
  Claim C8. In \<open>challenge_processor.py\<close>, which imports neither \<open>os\<close> nor \<open>json\<close>,
  the body of \<open>_detect_signal_interference\<close> raises NameError at \<open>os.path.exists\<close>,
  the \<open>except\<close> clause absorbs it, and the result is the default
  \<open>{'detected': False, 'spike_level': 0.0, 'warning_message': None}\<close> for every text,
  user and density, whatever the logs hold; so no processed challenge carries a warning.
\<close>

theorem detect_signal_interference_default:
  "detect_signal_interference_body challenge_processor_names now observer_log interference_log
       txt uid sd = Inl (NameError ''os'')
   \<and> detect_signal_interference challenge_processor_names now observer_log interference_log
       txt uid sd
     = (interference_log, \<lparr>detected = False, spike_level = 0.0, warning_message = None\<rparr>)
   \<and> interference_detected
        (snd (process_challenge challenge_processor_names now observer_log interference_log ct uid))
     = \<lparr>detected = False, spike_level = 0.0, warning_message = None\<rparr>
   \<and> \<not> warning_attached
        (snd (process_challenge challenge_processor_names now observer_log interference_log ct uid))"
proof -
  have b: "\<And>t s. detect_signal_interference_body challenge_processor_names now observer_log
       interference_log t uid s = Inl (NameError ''os'')"
    by (simp add: detect_signal_interference_body_def os_not_bound)
  have d: "\<And>t s. detect_signal_interference challenge_processor_names now observer_log
       interference_log t uid s = (interference_log, no_interference)"
    by (simp add: detect_signal_interference_def b)
  show ?thesis
    by (simp add: b d process_challenge_def Let_def warning_attached_def no_interference_def)
qed

text \<open>
  The theorem at a concrete call, on an observer log that would show a spike: nothing is
  detected and the interference log stays absent.
\<close>

theorem detect_signal_interference_default_witness:
  "detect_signal_interference challenge_processor_names ''2024-01-01T00:00:00''
     (Json_list [observer_entry_at 0\<lparr>entry_delta_phi := 0.1\<rparr>,
                 observer_entry_at 1\<lparr>entry_delta_phi := 0.1\<rparr>,
                 observer_entry_at 2\<lparr>entry_delta_phi := 0.1\<rparr>])
     Absent ''what is time?'' 1 1
   = (Absent, \<lparr>detected = False, spike_level = 0.0, warning_message = None\<rparr>)"
  using detect_signal_interference_default
      [of "''2024-01-01T00:00:00''"
          "Json_list [observer_entry_at 0\<lparr>entry_delta_phi := 0.1\<rparr>,
                      observer_entry_at 1\<lparr>entry_delta_phi := 0.1\<rparr>,
                      observer_entry_at 2\<lparr>entry_delta_phi := 0.1\<rparr>]"
          Absent "''what is time?''" 1 1]
  by simp

text \<open>Were \<open>os\<close> and \<open>json\<close> bound, the same body would detect the spike of that log.\<close>

lemma detect_signal_interference_with_imports:
  "snd (detect_signal_interference (''os'' # ''json'' # challenge_processor_names) now
     (Json_list [observer_entry_at 0\<lparr>entry_delta_phi := 0.1\<rparr>,
                 observer_entry_at 1\<lparr>entry_delta_phi := 0.1\<rparr>,
                 observer_entry_at 2\<lparr>entry_delta_phi := 0.1\<rparr>])
     Absent txt 1 1)
   = \<lparr>detected = True, spike_level = 31.4159, warning_message = Some interference_warning\<rparr>"
  by (simp add: detect_signal_interference_def detect_signal_interference_body_def
      lookup_name_def load_log_def last_n_def observer_entry_at_def Let_def)


section \<open>The processor: the four scores\<close>

lemma clamp_nan_unit: "0 \<le> py_max_nan 0.0 (py_min_nan x 1.0) \<and> py_max_nan 0.0 (py_min_nan x 1.0) \<le> 1"
  by (cases x) (auto simp: py_max_nan_def py_min_nan_def)

lemma calculate_complexity_unit:
  "0 \<le> calculate_complexity s \<and> calculate_complexity s \<le> 1"
  unfolding calculate_complexity_def Let_def by (rule clamp_nan_unit)

lemma calculate_semantic_density_unit:
  "0 \<le> calculate_semantic_density s \<and> calculate_semantic_density s \<le> 1"
  by (simp add: calculate_semantic_density_def Let_def)

lemma calculate_text_entropy_unit:
  "0 \<le> calculate_text_entropy cs \<and> calculate_text_entropy cs \<le> 1"
  using shannon_entropy_nonneg [of cs]
  by (simp add: calculate_text_entropy_def Let_def entropy_fold_shannon)

lemma calculate_urgency_unit:
  "0 \<le> calculate_urgency s \<and> calculate_urgency s \<le> 1"
  by (simp add: calculate_urgency_def Let_def)

text \<open>
  Claim C10. For every input text and user id, and whatever the logs hold, the
  \<open>complexity\<close>, \<open>semantic_density\<close>, \<open>entropy\<close> and \<open>urgency\<close> fields of the
  dictionary \<open>process_challenge\<close> returns lie in the closed interval from 0 to 1. For
  \<open>complexity\<close> this includes the texts with no non-blank sentence, where the average
  sentence length is NaN and the final \<open>max(0.0, ...)\<close> returns 0.0.
\<close>

theorem process_challenge_scores_unit_interval:
  "0 \<le> complexity (snd (process_challenge names now observer_log interference_log ct uid))
   \<and> complexity (snd (process_challenge names now observer_log interference_log ct uid)) \<le> 1
   \<and> 0 \<le> semantic_density (snd (process_challenge names now observer_log interference_log ct uid))
   \<and> semantic_density (snd (process_challenge names now observer_log interference_log ct uid)) \<le> 1
   \<and> 0 \<le> entropy (snd (process_challenge names now observer_log interference_log ct uid))
   \<and> entropy (snd (process_challenge names now observer_log interference_log ct uid)) \<le> 1
   \<and> 0 \<le> urgency (snd (process_challenge names now observer_log interference_log ct uid))
   \<and> urgency (snd (process_challenge names now observer_log interference_log ct uid)) \<le> 1"
  using calculate_complexity_unit [of "normalize_text ct"]
    calculate_semantic_density_unit [of "normalize_text ct"]
    calculate_text_entropy_unit [of "normalize_text ct"]
    calculate_urgency_unit [of "normalize_text ct"]
  by (simp add: process_challenge_def Let_def split: prod.splits)

theorem process_challenge_scores_unit_interval_witness:
  "0 \<le> complexity (snd (process_challenge challenge_processor_names ''2024-01-01T00:00:00''
         Absent Absent ''=.........'' 1))
   \<and> complexity (snd (process_challenge challenge_processor_names ''2024-01-01T00:00:00''
         Absent Absent ''=.........'' 1)) \<le> 1
   \<and> 0 \<le> semantic_density (snd (process_challenge challenge_processor_names
         ''2024-01-01T00:00:00'' Absent Absent ''=.........'' 1))
   \<and> semantic_density (snd (process_challenge challenge_processor_names
         ''2024-01-01T00:00:00'' Absent Absent ''=.........'' 1)) \<le> 1
   \<and> 0 \<le> entropy (snd (process_challenge challenge_processor_names ''2024-01-01T00:00:00''
         Absent Absent ''=.........'' 1))
   \<and> entropy (snd (process_challenge challenge_processor_names ''2024-01-01T00:00:00''
         Absent Absent ''=.........'' 1)) \<le> 1
   \<and> 0 \<le> urgency (snd (process_challenge challenge_processor_names ''2024-01-01T00:00:00''
         Absent Absent ''=.........'' 1))
   \<and> urgency (snd (process_challenge challenge_processor_names ''2024-01-01T00:00:00''
         Absent Absent ''=.........'' 1)) \<le> 1"
  by (rule process_challenge_scores_unit_interval)

text \<open>
  The text of nine full stops has no non-blank sentence: the average is NaN and the
  complexity is 0.
\<close>

lemma calculate_complexity_nan_example:
  "avg_sentence_length ''.........'' = None \<and> calculate_complexity ''.........'' = 0"
proof -
  have a: "avg_sentence_length ''.........'' = None"
    by (simp add: avg_sentence_length_def np_mean_def py_strip_def)
  show ?thesis
    by (simp add: a calculate_complexity_def Let_def py_min_nan_def py_max_nan_def add_nan_def)
qed

section \<open>The log writers\<close>

lemma last_n_append_last_n: "last_n n (last_n n xs @ ys) = last_n n (xs @ ys)"
proof (cases "length xs \<le> n")
  case True
  then show ?thesis by (simp add: last_n_def)
next
  case False
  then have "length xs + length ys - (length xs - n + n) + (length xs - n)
             = length xs + length ys - n" by arith
  then show ?thesis using False by (simp add: last_n_def)
qed

lemma last_n_short: "length xs \<le> n \<Longrightarrow> last_n n xs = xs"
  by (simp add: last_n_def)

lemma capped_is_last_n: "(if length xs > n then last_n n xs else xs) = last_n n xs"
  by (simp add: last_n_def)

lemma length_last_n: "length (last_n n xs) = min n (length xs)"
  by (simp add: last_n_def)

lemma save_observer_log_entries:
  "lg \<noteq> Unloadable \<Longrightarrow>
   save_observer_log lg entry = Json_list (last_n 1000 (entries_of lg @ [entry]))"
  by (cases lg) (simp_all add: save_observer_log_def load_log_def entries_of_def Let_def last_n_def)

lemma save_observer_log_unloadable: "save_observer_log Unloadable entry = Unloadable"
  by (simp add: save_observer_log_def load_log_def)

lemma save_observer_log_writes:
  "lg \<noteq> Unloadable \<Longrightarrow> length (entries_of lg) \<le> 1000 \<Longrightarrow>
   entries_of (foldl save_observer_log lg es) = last_n 1000 (entries_of lg @ es)"
proof (induction es arbitrary: lg)
  case Nil
  then show ?case by (simp add: last_n_short)
next
  case (Cons e es)
  have eq: "save_observer_log lg e = Json_list (last_n 1000 (entries_of lg @ [e]))"
    using Cons.prems(1) by (rule save_observer_log_entries)
  have ne: "save_observer_log lg e \<noteq> Unloadable" by (simp add: eq)
  have le: "length (entries_of (save_observer_log lg e)) \<le> 1000"
    by (simp add: eq entries_of_def length_last_n)
  have "entries_of (foldl save_observer_log lg (e # es))
        = last_n 1000 (entries_of (save_observer_log lg e) @ es)"
    using Cons.IH [OF ne le] by simp
  also have "\<dots> = last_n 1000 (last_n 1000 (entries_of lg @ [e]) @ es)"
    by (simp add: eq entries_of_def)
  also have "\<dots> = last_n 1000 (entries_of lg @ e # es)"
    by (simp add: last_n_append_last_n)
  finally show ?case .
qed

text \<open>The validation logs.\<close>

lemma log_challenge_validation_valid:
  "valid vr \<Longrightarrow> validated_challenges logs \<noteq> Unloadable \<Longrightarrow>
   log_challenge_validation now logs ct uid vr
   = logs\<lparr>validated_challenges :=
       Json_list (last_n 500 (entries_of (validated_challenges logs)
                               @ [validation_entry_of now ct uid vr]))\<rparr>"
  by (cases "validated_challenges logs")
     (simp_all add: log_challenge_validation_def load_log_def entries_of_def Let_def last_n_def)

lemma log_challenge_validation_rejected:
  "\<not> valid vr \<Longrightarrow> rejected_challenges logs \<noteq> Unloadable \<Longrightarrow>
   log_challenge_validation now logs ct uid vr
   = logs\<lparr>rejected_challenges :=
       Json_list (last_n 500 (entries_of (rejected_challenges logs)
                               @ [validation_entry_of now ct uid vr]))\<rparr>"
  by (cases "rejected_challenges logs")
     (simp_all add: log_challenge_validation_def load_log_def entries_of_def Let_def last_n_def)

lemma log_validations_entries:
  assumes "validated_challenges logs \<noteq> Unloadable" and "rejected_challenges logs \<noteq> Unloadable"
    and "length (entries_of (validated_challenges logs)) \<le> 500"
    and "length (entries_of (rejected_challenges logs)) \<le> 500"
  shows "entries_of (validated_challenges (log_validations logs calls))
           = last_n 500 (entries_of (validated_challenges logs)
                          @ map call_entry (filter call_valid calls))
       \<and> entries_of (rejected_challenges (log_validations logs calls))
           = last_n 500 (entries_of (rejected_challenges logs)
                          @ map call_entry (filter (\<lambda>c. \<not> call_valid c) calls))"
  using assms
proof (induction calls arbitrary: logs)
  case Nil
  then show ?case by (simp add: last_n_short)
next
  case (Cons c calls)
  obtain now ct uid vr where c: "c = (now, ct, uid, vr)" by (cases c) auto
  let ?logs1 = "log_challenge_validation now logs ct uid vr"
  show ?case
  proof (cases "valid vr")
    case True
    have eq: "?logs1 = logs\<lparr>validated_challenges :=
       Json_list (last_n 500 (entries_of (validated_challenges logs)
                               @ [validation_entry_of now ct uid vr]))\<rparr>"
      using True Cons.prems(1) by (rule log_challenge_validation_valid)
    have p1: "validated_challenges ?logs1 \<noteq> Unloadable" by (simp add: eq)
    have p2: "rejected_challenges ?logs1 \<noteq> Unloadable" using Cons.prems(2) by (simp add: eq)
    have p3: "length (entries_of (validated_challenges ?logs1)) \<le> 500"
      by (simp add: eq entries_of_def length_last_n)
    have p4: "length (entries_of (rejected_challenges ?logs1)) \<le> 500"
      using Cons.prems(4) by (simp add: eq)
    show ?thesis
      using Cons.IH [OF p1 p2 p3 p4] True
      by (simp add: c call_entry_def call_valid_def)
         (simp add: eq entries_of_def last_n_append_last_n)
  next
    case False
    have eq: "?logs1 = logs\<lparr>rejected_challenges :=
       Json_list (last_n 500 (entries_of (rejected_challenges logs)
                               @ [validation_entry_of now ct uid vr]))\<rparr>"
      using False Cons.prems(2) by (rule log_challenge_validation_rejected)
    have p1: "validated_challenges ?logs1 \<noteq> Unloadable" using Cons.prems(1) by (simp add: eq)
    have p2: "rejected_challenges ?logs1 \<noteq> Unloadable" by (simp add: eq)
    have p3: "length (entries_of (validated_challenges ?logs1)) \<le> 500"
      using Cons.prems(3) by (simp add: eq)
    have p4: "length (entries_of (rejected_challenges ?logs1)) \<le> 500"
      by (simp add: eq entries_of_def length_last_n)
    show ?thesis
      using Cons.IH [OF p1 p2 p3 p4] False
      by (simp add: c call_entry_def call_valid_def)
         (simp add: eq entries_of_def last_n_append_last_n)
  qed
qed

lemma observer_entry_at_inj: "observer_entry_at i = observer_entry_at j \<longleftrightarrow> i = j"
  by (auto simp: observer_entry_at_def)

text \<open>
  Claim C3, as stated, fails: the writers do not keep every entry. After 1001 writes to
  an absent observer log the file holds 1000 entries and the first one written is gone.
\<close>

theorem observer_log_drops_oldest:
  "observer_entry_at 0 \<in> set (map observer_entry_at [0..<1001])
   \<and> observer_entry_at 0
       \<notin> set (entries_of (foldl save_observer_log Absent (map observer_entry_at [0..<1001])))
   \<and> length (entries_of (foldl save_observer_log Absent (map observer_entry_at [0..<1001]))) = 1000"
proof -
  have a: "(Absent :: observer_entry log_file) \<noteq> Unloadable" by simp
  have b: "length (entries_of (Absent :: observer_entry log_file)) \<le> 1000"
    by (simp add: entries_of_def)
  have e: "entries_of (foldl save_observer_log Absent (map observer_entry_at [0..<1001]))
           = last_n 1000 (map observer_entry_at [0..<1001])"
    using save_observer_log_writes [OF a b, of "map observer_entry_at [0..<1001]"]
    by (simp add: entries_of_def)
  have l: "last_n 1000 (map observer_entry_at [0..<1001]) = map observer_entry_at [1..<1001]"
    by (simp add: last_n_def drop_map)
  show ?thesis
    unfolding e l by (auto simp: observer_entry_at_inj)
qed

text \<open>
  Claim C3, amended. On a log that is absent or holds a JSON list within its bound,
  \<open>_save_observer_log\<close> and \<open>_log_challenge_validation\<close> append the entry and then
  keep only the most recent 1000 (observer log) or 500 (validation logs) entries. So
  after any sequence of writes the log holds the last 1000 (or 500) entries of what it
  held followed by what was written, in order, and it holds all of them as long as
  their number stays within the bound. A validation entry goes to the file of the
  valid or of the rejected challenges according to its result.
\<close>

theorem log_writers_keep_last_entries:
  assumes "lg \<noteq> Unloadable" and "length (entries_of lg) \<le> 1000"
    and "validated_challenges logs \<noteq> Unloadable" and "rejected_challenges logs \<noteq> Unloadable"
    and "length (entries_of (validated_challenges logs)) \<le> 500"
    and "length (entries_of (rejected_challenges logs)) \<le> 500"
  shows "save_observer_log lg e = Json_list (last_n 1000 (entries_of lg @ [e]))
       \<and> entries_of (foldl save_observer_log lg es) = last_n 1000 (entries_of lg @ es)
       \<and> (length (entries_of lg) + length es \<le> 1000 \<longrightarrow>
            entries_of (foldl save_observer_log lg es) = entries_of lg @ es)
       \<and> entries_of (validated_challenges (log_validations logs calls))
           = last_n 500 (entries_of (validated_challenges logs)
                          @ map call_entry (filter call_valid calls))
       \<and> entries_of (rejected_challenges (log_validations logs calls))
           = last_n 500 (entries_of (rejected_challenges logs)
                          @ map call_entry (filter (\<lambda>c. \<not> call_valid c) calls))"
proof -
  have w: "entries_of (foldl save_observer_log lg es) = last_n 1000 (entries_of lg @ es)"
    using assms(1,2) by (rule save_observer_log_writes)
  have s: "length (entries_of lg) + length es \<le> 1000 \<longrightarrow>
            entries_of (foldl save_observer_log lg es) = entries_of lg @ es"
    by (simp add: w last_n_short)
  show ?thesis
    using save_observer_log_entries [OF assms(1), of e] w s
      log_validations_entries [OF assms(3,4,5,6), of calls]
    by blast
qed

text \<open>
  The theorem on absent logs: one observer entry, then two more, and two validation
  calls, the first valid and the second not.
\<close>

theorem log_writers_keep_last_entries_witness:
  "save_observer_log Absent (observer_entry_at 5) = Json_list [observer_entry_at 5]
   \<and> entries_of (foldl save_observer_log Absent [observer_entry_at 1, observer_entry_at 2])
       = [observer_entry_at 1, observer_entry_at 2]
   \<and> entries_of (validated_challenges
        (log_validations \<lparr>validated_challenges = Absent, rejected_challenges = Absent\<rparr>
           [(''t1'', ''what is time?'', 1,
               \<lparr>valid = True, errors = [], suggestions = [], rft_symbols_found = []\<rparr>),
            (''t2'', ''hm'', 1,
               \<lparr>valid = False, errors = [''Challenge too short''], suggestions = [],
                rft_symbols_found = []\<rparr>)]))
       = [validation_entry_of ''t1'' ''what is time?'' 1
            \<lparr>valid = True, errors = [], suggestions = [], rft_symbols_found = []\<rparr>]
   \<and> entries_of (rejected_challenges
        (log_validations \<lparr>validated_challenges = Absent, rejected_challenges = Absent\<rparr>
           [(''t1'', ''what is time?'', 1,
               \<lparr>valid = True, errors = [], suggestions = [], rft_symbols_found = []\<rparr>),
            (''t2'', ''hm'', 1,
               \<lparr>valid = False, errors = [''Challenge too short''], suggestions = [],
                rft_symbols_found = []\<rparr>)]))
       = [validation_entry_of ''t2'' ''hm'' 1
            \<lparr>valid = False, errors = [''Challenge too short''], suggestions = [],
             rft_symbols_found = []\<rparr>]"
proof -
  let ?logs = "\<lparr>validated_challenges = Absent, rejected_challenges = Absent\<rparr>"
  have h1: "(Absent :: observer_entry log_file) \<noteq> Unloadable" by simp
  have h2: "length (entries_of (Absent :: observer_entry log_file)) \<le> 1000"
    by (simp add: entries_of_def)
  have h3: "validated_challenges ?logs \<noteq> Unloadable" by simp
  have h4: "rejected_challenges ?logs \<noteq> Unloadable" by simp
  have h5: "length (entries_of (validated_challenges ?logs)) \<le> 500"
    by (simp add: entries_of_def)
  have h6: "length (entries_of (rejected_challenges ?logs)) \<le> 500"
    by (simp add: entries_of_def)
  show ?thesis
    using log_writers_keep_last_entries [OF h1 h2 h3 h4 h5 h6,
        of "observer_entry_at 5" "[observer_entry_at 1, observer_entry_at 2]"
           "[(''t1'', ''what is time?'', 1,
               \<lparr>valid = True, errors = [], suggestions = [], rft_symbols_found = []\<rparr>),
            (''t2'', ''hm'', 1,
               \<lparr>valid = False, errors = [''Challenge too short''], suggestions = [],
                rft_symbols_found = []\<rparr>)]"]
    by (simp add: entries_of_def last_n_def call_valid_def call_entry_def)
qed

text \<open>
  \<open>_log_theft_flag\<close> lives in \<open>challenge_processor.py\<close>, where \<open>os\<close> is not bound:
  its body raises NameError at \<open>os.path.exists\<close> and the flag file is never written.
\<close>

lemma log_theft_flag_never_writes:
  "log_theft_flag_body challenge_processor_names now lg uid ct td = (lg, Some (NameError ''os''))
   \<and> log_theft_flag challenge_processor_names now lg uid ct td = lg"
  by (simp add: log_theft_flag_def log_theft_flag_body_def lookup_name_def
      challenge_processor_names_def)


section \<open>The engine: what the parameters depend on\<close>


lemma observer_state_keeps_parameters:
  "calculate_observer_state r t eng uid cd = Inr (eng1, om) \<Longrightarrow>
   current_parameters eng1 = current_parameters eng \<and> base_parameters eng1 = base_parameters eng"
  by (auto simp: calculate_observer_state_def Let_def py_div_def split: if_splits)

lemma coherence_coefficient_parameters:
  "current_parameters e = current_parameters e' \<Longrightarrow>
   calculate_coherence_coefficient e ct c = calculate_coherence_coefficient e' ct c"
  by (simp add: calculate_coherence_coefficient_def)

lemma phase_differential_parameters:
  "current_parameters e = current_parameters e' \<Longrightarrow>
   calculate_phase_differential t e sd cd = calculate_phase_differential t e' sd cd"
  by (simp add: calculate_phase_differential_def)

lemma observer_state_known_observer:
  "uid \<in> dom (observer_states eng) \<Longrightarrow>
   calculate_observer_state r t eng uid cd = calculate_observer_state r' t eng uid cd"
  by (auto simp: calculate_observer_state_def)

lemma render_frame_omega:
  "map_sum id omega_result (render_frame tv t e p cd)
   = (if delta_phi p * upsilon p = 0 \<or> \<not> bases_nonzero e then Inl ZeroDivisionError
      else Inr ((omega_obs p * chi_liam p) / (delta_phi p * upsilon p)))"
  by (auto simp: render_frame_def core_equation_def py_div_def bases_nonzero_def Let_def
      calculate_frame_stability_def generate_frame_characteristics_def
      assess_rendering_quality_def)

lemma calculate_rft_parameters_fields:
  assumes "calculate_rft_parameters inp eng cd = Inr (e1, p)"
  obtains e0 where
    "calculate_observer_state (r_base_coherence inp) (t_observer inp) eng (user_id cd) cd
       = Inr (e0, omega_obs p)"
    and "chi_liam p = calculate_coherence_coefficient eng (challenge_type cd) (complexity cd)"
    and "delta_phi p = calculate_phase_differential (t_phase inp) eng (semantic_density cd) cd"
    and "upsilon p = calculate_temporal_scaling (r_variance inp) e0 (user_id cd) cd"
    and "calculate_effective_timing eng (omega_obs p) (chi_liam p) (delta_phi p) (upsilon p)
           = Inr (tau_eff p)"
    and "current_parameters e1 = current_parameters eng"
proof -
  from assms obtain e0 om where
    os: "calculate_observer_state (r_base_coherence inp) (t_observer inp) eng (user_id cd) cd
       = Inr (e0, om)"
    by (auto simp: calculate_rft_parameters_def split: sum.splits)
  have cp: "current_parameters e0 = current_parameters eng"
    and bp: "base_parameters e0 = base_parameters eng"
    using observer_state_keeps_parameters [OF os] by simp_all
  have et: "\<And>a b c d. calculate_effective_timing e0 a b c d = calculate_effective_timing eng a b c d"
    unfolding calculate_effective_timing_def cp bp by (rule refl)
  from assms os have
    p: "omega_obs p = om"
      "chi_liam p = calculate_coherence_coefficient e0 (challenge_type cd) (complexity cd)"
      "delta_phi p = calculate_phase_differential (t_phase inp) e0 (semantic_density cd) cd"
      "upsilon p = calculate_temporal_scaling (r_variance inp) e0 (user_id cd) cd"
      "calculate_effective_timing e0 (omega_obs p) (chi_liam p) (delta_phi p) (upsilon p)
           = Inr (tau_eff p)"
      "current_parameters e1 = current_parameters e0"
    by (auto simp: calculate_rft_parameters_def Let_def split: sum.splits)
  show thesis
    using that [of e0] os p cp et
    by (simp add: coherence_coefficient_parameters [OF cp] phase_differential_parameters [OF cp])
qed


text \<open>One run at the fresh engine, on the sample challenge.\<close>

lemma sample_observer_state:
  "calculate_observer_state 1 0 init_engine 7 sample_challenge
   = Inr (init_engine\<lparr>observer_states :=
      Map.empty(7 \<mapsto> \<lparr>base_coherence = 1, interaction_count = 1, synchronization_level = 1.111\<rparr>)\<rparr>,
      1.797598)"
  by (simp add: calculate_observer_state_def init_engine_def init_parameters_def
      sample_challenge_def py_div_def Let_def)

lemma sample_phase_differential:
  "calculate_phase_differential 0 init_engine (1/2) sample_challenge = 3.769908"
proof -
  have "2 \<le> pi" by (rule pi_ge_two)
  then have "\<not> (3.769908 :: real) > 2 * pi" by simp
  then show ?thesis
    by (simp add: calculate_phase_differential_def sample_challenge_def init_engine_def
        init_parameters_def PHASE_STABILITY_LIMIT_def Let_def)
qed

lemma sample_temporal_scaling:
  assumes "- 0.1 \<le> v" and "v \<le> 0.1"
  shows "calculate_temporal_scaling v (init_engine\<lparr>observer_states :=
      Map.empty(7 \<mapsto> \<lparr>base_coherence = 1, interaction_count = 1, synchronization_level = 1.111\<rparr>)\<rparr>)
      7 sample_challenge = 1.570954 * (1 + v)"
proof -
  have e: "calculate_temporal_scaling v (init_engine\<lparr>observer_states :=
      Map.empty(7 \<mapsto> \<lparr>base_coherence = 1, interaction_count = 1, synchronization_level = 1.111\<rparr>)\<rparr>)
      7 sample_challenge = max 0.1 (min (1.414 * 1.111 * (0.8 + 1/2 * 0.4) * (1 + v)) 10)"
    by (simp add: calculate_temporal_scaling_def sample_challenge_def init_engine_def
        init_parameters_def TEMPORAL_VARIANCE_MAX_def Let_def)
  have x: "1.414 * 1.111 * (0.8 + 1/2 * 0.4) * (1 + v) = 1.570954 * (1 + v)" by simp
  have lo: "0.1 \<le> 1.570954 * (1 + v)" using assms(1) by simp
  have hi: "1.570954 * (1 + v) \<le> 10" using assms(2) by simp
  show ?thesis
    unfolding e x using lo hi by (simp only: min_absorb1 max_absorb2)
qed

lemma sample_coherence:
  "calculate_coherence_coefficient init_engine ''general'' (1/2) = 2.718"
  by (simp add: calculate_coherence_coefficient_def init_engine_def init_parameters_def
      type_modifiers_def COHERENCE_THRESHOLD_def Let_def)

lemma calculate_rft_parameters_returns:
  assumes "omega_obs_base (current_parameters eng) \<noteq> 0"
    and "chi_liam_base (current_parameters eng) \<noteq> 0"
  shows "\<exists>e1 p. calculate_rft_parameters inp eng cd = Inr (e1, p)"
  using assms
  by (simp add: calculate_rft_parameters_def calculate_observer_state_def
      calculate_effective_timing_def py_div_def Let_def)

lemma sample_run:
  assumes "v = 0 \<or> v = 0.05"
  shows "\<exists>e1 p. calculate_rft_parameters (sample_inputs v) init_engine sample_challenge = Inr (e1, p)
     \<and> bases_nonzero e1
     \<and> omega_obs p = 1.797598 \<and> chi_liam p = 2.718 \<and> delta_phi p = 3.769908
     \<and> upsilon p = 1.570954 * (1 + v)"
proof -
  have a: "omega_obs_base (current_parameters init_engine) \<noteq> 0"
    and b: "chi_liam_base (current_parameters init_engine) \<noteq> 0"
    by (simp_all add: init_engine_def init_parameters_def)
  obtain e1 p where r: "calculate_rft_parameters (sample_inputs v) init_engine sample_challenge
      = Inr (e1, p)"
    using calculate_rft_parameters_returns [OF a b] by blast
  obtain e0 where f:
    "calculate_observer_state (r_base_coherence (sample_inputs v)) (t_observer (sample_inputs v))
       init_engine (user_id sample_challenge) sample_challenge = Inr (e0, omega_obs p)"
    "chi_liam p = calculate_coherence_coefficient init_engine (challenge_type sample_challenge)
       (complexity sample_challenge)"
    "delta_phi p = calculate_phase_differential (t_phase (sample_inputs v)) init_engine
       (semantic_density sample_challenge) sample_challenge"
    "upsilon p = calculate_temporal_scaling (r_variance (sample_inputs v)) e0
       (user_id sample_challenge) sample_challenge"
    "current_parameters e1 = current_parameters init_engine"
    using calculate_rft_parameters_fields [OF r] by metis
  have u: "user_id sample_challenge = 7" "challenge_type sample_challenge = ''general''"
    "complexity sample_challenge = 1/2" "semantic_density sample_challenge = 1/2"
    by (simp_all add: sample_challenge_def)
  from f(1) have os: "e0 = init_engine\<lparr>observer_states :=
      Map.empty(7 \<mapsto> \<lparr>base_coherence = 1, interaction_count = 1, synchronization_level = 1.111\<rparr>)\<rparr>"
    and om: "omega_obs p = 1.797598"
    by (simp_all add: sample_inputs_def u sample_observer_state)
  have chi: "chi_liam p = 2.718" using f(2) by (simp add: u sample_coherence)
  have dphi: "delta_phi p = 3.769908"
    using f(3) by (simp add: u sample_inputs_def sample_phase_differential)
  have "upsilon p = calculate_temporal_scaling v (init_engine\<lparr>observer_states :=
      Map.empty(7 \<mapsto> \<lparr>base_coherence = 1, interaction_count = 1, synchronization_level = 1.111\<rparr>)\<rparr>)
      7 sample_challenge"
    using f(4) by (simp add: u sample_inputs_def os)
  also have "\<dots> = 1.570954 * (1 + v)"
    by (rule sample_temporal_scaling) (use assms in auto)
  finally have ups: "upsilon p = 1.570954 * (1 + v)" .
  have bn: "bases_nonzero e1"
    using bases_nonzero_init by (simp add: bases_nonzero_def f(5))
  show ?thesis using r bn om chi dphi ups by blast
qed

lemma sample_render:
  assumes "v = 0 \<or> v = 0.05"
  shows "map_sum id (\<lambda>(e, p, fr). (upsilon p, omega_result fr))
           (calculate_and_render (sample_inputs v) tv t init_engine sample_challenge)
         = Inr (1.570954 * (1 + v), 1.797598 * 2.718 / (3.769908 * (1.570954 * (1 + v))))"
proof -
  obtain e1 p where r: "calculate_rft_parameters (sample_inputs v) init_engine sample_challenge
      = Inr (e1, p)"
    and bn: "bases_nonzero e1"
    and f: "omega_obs p = 1.797598" "chi_liam p = 2.718" "delta_phi p = 3.769908"
      "upsilon p = 1.570954 * (1 + v)"
    using sample_run [OF assms] by blast
  have nz: "delta_phi p * upsilon p \<noteq> 0" using assms by (auto simp: f)
  have "map_sum id omega_result (render_frame tv t e1 p sample_challenge)
        = Inr ((omega_obs p * chi_liam p) / (delta_phi p * upsilon p))"
    using bn nz by (simp add: render_frame_omega)
  then obtain fr where fr: "render_frame tv t e1 p sample_challenge = Inr fr"
    and om: "omega_result fr = (omega_obs p * chi_liam p) / (delta_phi p * upsilon p)"
    by (cases "render_frame tv t e1 p sample_challenge") auto
  show ?thesis
    by (simp add: calculate_and_render_def r fr om f)
qed


text \<open>
  Claim C2, as stated, fails: the parameters are not a function of the engine state,
  the time and the challenge alone. Two runs from the fresh engine on the same
  challenge, with every clock reading equal, differ in \<open>upsilon\<close> and in \<open>\<Omega>\<close> as
  soon as \<open>random.uniform(-0.1, 0.1)\<close> returns 0 in one run and 0.05 in the other.
\<close>

theorem random_draw_changes_parameters:
  "t_observer (sample_inputs 0) = t_observer (sample_inputs 0.05)
   \<and> t_phase (sample_inputs 0) = t_phase (sample_inputs 0.05)
   \<and> t_stamp (sample_inputs 0) = t_stamp (sample_inputs 0.05)
   \<and> map_sum id (\<lambda>(e, p, fr). (upsilon p, omega_result fr))
        (calculate_and_render (sample_inputs 0) 0 0 init_engine sample_challenge)
      = Inr (1.570954, 1.797598 * 2.718 / (3.769908 * 1.570954))
   \<and> map_sum id (\<lambda>(e, p, fr). (upsilon p, omega_result fr))
        (calculate_and_render (sample_inputs 0.05) 0 0 init_engine sample_challenge)
      = Inr (1.6495017, 1.797598 * 2.718 / (3.769908 * 1.6495017))
   \<and> map_sum id (\<lambda>(e, p, fr). (upsilon p, omega_result fr))
        (calculate_and_render (sample_inputs 0) 0 0 init_engine sample_challenge)
      \<noteq> map_sum id (\<lambda>(e, p, fr). (upsilon p, omega_result fr))
        (calculate_and_render (sample_inputs 0.05) 0 0 init_engine sample_challenge)"
proof -
  have a: "map_sum id (\<lambda>(e, p, fr). (upsilon p, omega_result fr))
        (calculate_and_render (sample_inputs 0) 0 0 init_engine sample_challenge)
      = Inr (1.570954, 1.797598 * 2.718 / (3.769908 * 1.570954))"
    using sample_render [of 0 0 0] by simp
  have b: "map_sum id (\<lambda>(e, p, fr). (upsilon p, omega_result fr))
        (calculate_and_render (sample_inputs 0.05) 0 0 init_engine sample_challenge)
      = Inr (1.6495017, 1.797598 * 2.718 / (3.769908 * 1.6495017))"
    using sample_render [of "0.05" 0 0] by simp
  show ?thesis
    unfolding a b by (simp add: sample_inputs_def)
qed


text \<open>
  Claim C2, amended. From the same engine state and with the same clock readings, two
  runs of \<open>calculate_rft_parameters\<close> give the same \<open>chi_liam\<close> and \<open>delta_phi\<close>
  whatever the random draws; the same \<open>omega_obs\<close> when the draw for
  \<open>base_coherence\<close> is the same or the observer is already known to the engine (no
  draw is made then); and, when the draw for the temporal variance is the same too, the
  same \<open>upsilon\<close> and \<open>tau_eff\<close> and the same \<open>\<Omega>\<close>, both as the value of the core
  equation and as the \<open>omega_result\<close> of \<open>render_frame\<close>, which does not depend on
  the draw or the clock reading of \<open>render_frame\<close> itself.
\<close>

theorem rft_parameters_determined_by_inputs:
  assumes "t_observer inp = t_observer inp'" and "t_phase inp = t_phase inp'"
    and "calculate_rft_parameters inp eng cd = Inr (e1, p)"
    and "calculate_rft_parameters inp' eng cd = Inr (e1', p')"
  shows "chi_liam p = chi_liam p' \<and> delta_phi p = delta_phi p'
       \<and> ((r_base_coherence inp = r_base_coherence inp' \<or> user_id cd \<in> dom (observer_states eng))
            \<longrightarrow> omega_obs p = omega_obs p')
       \<and> ((r_base_coherence inp = r_base_coherence inp' \<or> user_id cd \<in> dom (observer_states eng))
            \<and> r_variance inp = r_variance inp'
            \<longrightarrow> omega_obs p = omega_obs p' \<and> upsilon p = upsilon p' \<and> tau_eff p = tau_eff p'
                \<and> core_equation p = core_equation p'
                \<and> map_sum id omega_result (render_frame tv t e1 p cd)
                    = map_sum id omega_result (render_frame tv' t' e1' p' cd))"
proof -
  obtain e0 where a:
    "calculate_observer_state (r_base_coherence inp) (t_observer inp) eng (user_id cd) cd
       = Inr (e0, omega_obs p)"
    "chi_liam p = calculate_coherence_coefficient eng (challenge_type cd) (complexity cd)"
    "delta_phi p = calculate_phase_differential (t_phase inp) eng (semantic_density cd) cd"
    "upsilon p = calculate_temporal_scaling (r_variance inp) e0 (user_id cd) cd"
    "calculate_effective_timing eng (omega_obs p) (chi_liam p) (delta_phi p) (upsilon p)
           = Inr (tau_eff p)"
    "current_parameters e1 = current_parameters eng"
    using calculate_rft_parameters_fields [OF assms(3)] by blast
  obtain e0' where b:
    "calculate_observer_state (r_base_coherence inp') (t_observer inp') eng (user_id cd) cd
       = Inr (e0', omega_obs p')"
    "chi_liam p' = calculate_coherence_coefficient eng (challenge_type cd) (complexity cd)"
    "delta_phi p' = calculate_phase_differential (t_phase inp') eng (semantic_density cd) cd"
    "upsilon p' = calculate_temporal_scaling (r_variance inp') e0' (user_id cd) cd"
    "calculate_effective_timing eng (omega_obs p') (chi_liam p') (delta_phi p') (upsilon p')
           = Inr (tau_eff p')"
    "current_parameters e1' = current_parameters eng"
    using calculate_rft_parameters_fields [OF assms(4)] by blast
  have chi: "chi_liam p = chi_liam p'" using a(2) b(2) by simp
  have dphi: "delta_phi p = delta_phi p'" using a(3) b(3) assms(2) by simp
  have same_obs: "e0 = e0' \<and> omega_obs p = omega_obs p'"
    if "r_base_coherence inp = r_base_coherence inp' \<or> user_id cd \<in> dom (observer_states eng)"
  proof -
    have "calculate_observer_state (r_base_coherence inp) (t_observer inp) eng (user_id cd) cd
        = calculate_observer_state (r_base_coherence inp') (t_observer inp') eng (user_id cd) cd"
    proof (cases "user_id cd \<in> dom (observer_states eng)")
      case True
      show ?thesis
        using observer_state_known_observer
          [OF True, of "r_base_coherence inp" "t_observer inp" cd "r_base_coherence inp'"]
          assms(1)
        by simp
    next
      case False
      with that have "r_base_coherence inp = r_base_coherence inp'" by simp
      then show ?thesis using assms(1) by simp
    qed
    with a(1) b(1) show ?thesis by simp
  qed
  have rest: "upsilon p = upsilon p' \<and> tau_eff p = tau_eff p'
                \<and> core_equation p = core_equation p'
                \<and> map_sum id omega_result (render_frame tv t e1 p cd)
                    = map_sum id omega_result (render_frame tv' t' e1' p' cd)"
    if h: "r_base_coherence inp = r_base_coherence inp' \<or> user_id cd \<in> dom (observer_states eng)"
      and v: "r_variance inp = r_variance inp'"
  proof -
    have e: "e0 = e0'" and om: "omega_obs p = omega_obs p'" using same_obs [OF h] by simp_all
    have ups: "upsilon p = upsilon p'" using a(4) b(4) e v by simp
    have tau: "tau_eff p = tau_eff p'" using a(5) b(5) om chi dphi ups by simp
    have ce: "core_equation p = core_equation p'"
      by (simp add: core_equation_def om chi dphi ups)
    have bn: "bases_nonzero e1 = bases_nonzero e1'"
      by (simp add: bases_nonzero_def a(6) b(6))
    show ?thesis
      by (simp add: ups tau ce render_frame_omega om chi dphi bn)
  qed
  show ?thesis using chi dphi same_obs rest by blast
qed

text \<open>
  The theorem at the two runs of the counterexample: they differ in the variance draw
  only, and agree on \<open>omega_obs\<close>, \<open>chi_liam\<close> and \<open>delta_phi\<close>.
\<close>

theorem rft_parameters_determined_by_inputs_witness:
  "map_sum id (\<lambda>(e, p). (omega_obs p, chi_liam p, delta_phi p))
        (calculate_rft_parameters (sample_inputs 0) init_engine sample_challenge)
   = map_sum id (\<lambda>(e, p). (omega_obs p, chi_liam p, delta_phi p))
        (calculate_rft_parameters (sample_inputs 0.05) init_engine sample_challenge)"
proof -
  obtain e1 p where r: "calculate_rft_parameters (sample_inputs 0) init_engine sample_challenge
      = Inr (e1, p)"
    using sample_run [of 0] by auto
  obtain e1' p' where r': "calculate_rft_parameters (sample_inputs 0.05) init_engine sample_challenge
      = Inr (e1', p')"
    using sample_run [of "0.05"] by auto
  have t1: "t_observer (sample_inputs 0) = t_observer (sample_inputs 0.05)"
    and t2: "t_phase (sample_inputs 0) = t_phase (sample_inputs 0.05)"
    and rb: "r_base_coherence (sample_inputs 0) = r_base_coherence (sample_inputs 0.05)"
    by (simp_all add: sample_inputs_def)
  from rft_parameters_determined_by_inputs [OF t1 t2 r r'] rb
  have "chi_liam p = chi_liam p'" "delta_phi p = delta_phi p'" "omega_obs p = omega_obs p'"
    by simp_all
  then show ?thesis unfolding r r' by simp
qed

section \<open>The observer logger and its lock\<close>

text \<open>
  A call of \<open>log_interaction\<close> of any type but \<open>challenge_start\<close>, by a thread that
  does not hold the lock, returns with the lock released, and both of its writes were
  made under the lock.
\<close>

lemma log_interaction_locked_writes:
  assumes "\<not> lock_held st" and "itype \<noteq> ''challenge_start''"
  shows "\<exists>st'. log_interaction str_int now st uid itype payload = Returned st'
           \<and> \<not> lock_held st'
           \<and> mutations st' = mutations st
                @ [(Observer_interactions, True), (Observer_metadata, True)]"
  using assms by (simp add: log_interaction_def record_mutation_def Let_def)

text \<open>
  A \<open>challenge_start\<close> never returns: \<open>log_interaction\<close> calls
  \<open>log_observer_state\<close> while holding the lock that the latter acquires.
\<close>

lemma log_interaction_challenge_start_blocks:
  "log_interaction str_int now st uid ''challenge_start'' payload = Blocked"
  by (simp add: log_interaction_def log_observer_state_def record_mutation_def Let_def)

text \<open>
  Claim C7 does not hold of \<open>get_sync_status\<close>. On a new logger, called by a thread
  that does not hold \<open>self.lock\<close>, it stores the computed status in
  \<open>sync_status_cache\<close>; the write is recorded with the lock not held.
\<close>

theorem get_sync_status_writes_cache_unlocked:
  "get_sync_status 1000 new_observer_logger 1
     = (new_observer_logger
          \<lparr>sync_status_cache := [1 \<mapsto> (''INITIALIZING'', 1000)],
           mutations := [(Sync_status_cache, False)]\<rparr>,
        ''INITIALIZING'')
   \<and> (Sync_status_cache, False) \<in> set (mutations (fst (get_sync_status 1000 new_observer_logger 1)))"
  by (simp add: get_sync_status_def calculate_sync_status_def new_observer_logger_def
      record_mutation_def cache_timeout_def Let_def)

text \<open>The same holds on every cache miss of a thread that does not hold the lock.\<close>

lemma get_sync_status_miss_unlocked:
  assumes "sync_status_cache st uid = None" and "\<not> lock_held st"
  shows "(Sync_status_cache, False) \<in> set (mutations (fst (get_sync_status now st uid)))"
proof -
  obtain st1 s where c: "calculate_sync_status now st uid = (st1, s)"
    by (cases "calculate_sync_status now st uid") auto
  have "lock_held st1 = lock_held st"
    using c
    by (auto simp: calculate_sync_status_def read_interactions_def record_mutation_def Let_def
        split: option.splits if_splits)
  then show ?thesis
    using assms by (simp add: get_sync_status_def c record_mutation_def Let_def)
qed

section \<open>The challenge handler\<close>

lemma py_in_prefix: "prefix sub xs \<Longrightarrow> py_in sub xs"
  by (cases xs) auto

lemma py_in_append: "py_in sub (a @ sub @ b)"
  by (induction a) (auto intro: py_in_prefix)

lemma error_response_contains_str: "py_in (str_of e) (error_response e)"
proof -
  obtain a b where "error_response e = a @ str_of e @ b"
    unfolding error_response_def by (metis append.assoc)
  then show ?thesis by (simp add: py_in_append)
qed


text \<open>
  \<open>send_telegram_message\<close> returns True when the send returns, and False, raising
  nothing, when the send raises.
\<close>

lemma send_telegram_message_catches:
  "send_telegram_message Returns Returns = Returned True
   \<and> send_telegram_message Returns (Raises e) = Returned False"
  by (simp add: send_telegram_message_def)

text \<open>
  What the \<open>try\<close> and its \<open>except\<close> clause would do, were they entered by a thread
  that does not hold the logger's lock: a failing pipeline has run once and fails the
  body, and the \<open>except\<close> clause, when its edit returns, edits the processing message
  to the error text, logs a \<open>challenge_error\<close> interaction and marks the session.
\<close>

lemma try_body_runs_pipeline_once:
  "length (filter (\<lambda>a. a = Run_pipeline) (fst (try_body sf si now calls lg uid ct))) \<le> 1"
  by (simp add: try_body_def Let_def split: call_outcome.splits sum.splits ending.splits)

lemma pipeline_failure_fails_body:
  "valid (omega_enforcer calls) \<Longrightarrow> pipeline calls = Inl e \<Longrightarrow>
   snd (try_body sf si now calls lg uid ct) = Failed e lg"
  by (simp add: try_body_def)

lemma except_clause_reports_error:
  assumes "\<not> lock_held lg" and "error_edit_message_text calls = Returns"
  shows "\<exists>lg'. except_clause sf si now calls e lg uid ct
           = ([Edit (sf (error_response e)), Log_interaction ''challenge_error'',
               Acquire_session_lock, Set_session ''error'', Release_session_lock],
              Returned lg')
         \<and> \<not> lock_held lg'"
proof -
  obtain lg' where l: "log_interaction si now lg uid ''challenge_error'' ct = Returned lg'"
    and u: "\<not> lock_held lg'"
    using log_interaction_locked_writes [OF assms(1), of "''challenge_error''" si now uid ct]
    by auto
  show ?thesis
    by (simp add: except_clause_def assms(2) l u)
qed

text \<open>
  The handler never gets that far. Whatever the message, the outcomes of the outside
  calls and the state of the logger, \<open>handle_challenge\<close> edits no message, runs no
  pipeline and logs no interaction: a challenge that passes \<open>validate_challenge\<close>
  stops it in the \<open>challenge_start\<close> call of \<open>log_interaction\<close>.
\<close>

lemma handle_challenge_never_enters_try:
  "(\<forall>t. Edit t \<notin> set (fst (handle_challenge sf si now calls lg uid mt)))
   \<and> Run_pipeline \<notin> set (fst (handle_challenge sf si now calls lg uid mt))
   \<and> (\<forall>t. Log_interaction t \<notin> set (fst (handle_challenge sf si now calls lg uid mt)))"
  by (simp add: handle_challenge_def final_reply_def Let_def
      log_interaction_challenge_start_blocks split: call_outcome.splits sum.splits)

lemma handle_challenge_valid_challenge_blocks:
  assumes "py_strip (drop 10 mt) \<noteq> []" and "validate_challenge calls = Inr (True, reason)"
  shows "handle_challenge sf si now calls lg uid mt = ([], Blocked)"
  using assms
  by (simp add: handle_challenge_def Let_def log_interaction_challenge_start_blocks)


section \<open>The session dictionary and its lock\<close>

text \<open>
  The writes to \<open>active_sessions\<close> that \<open>handle_challenge\<close> makes are all between
  an acquisition and the release of \<open>session_lock\<close>.
\<close>

lemma guarded_append:
  "session_writes_guarded h (xs @ ys)
   = (session_writes_guarded h xs
      \<and> session_writes_guarded (foldl (\<lambda>held a. case a of Acquire_session_lock \<Rightarrow> True
            | Release_session_lock \<Rightarrow> False | _ \<Rightarrow> held) h xs) ys)"
  by (induction h xs rule: session_writes_guarded.induct) auto

lemma try_body_guarded:
  "session_writes_guarded False (fst (try_body sf si now calls lg uid ct))
   \<and> foldl (\<lambda>held a. case a of Acquire_session_lock \<Rightarrow> True
            | Release_session_lock \<Rightarrow> False | _ \<Rightarrow> held) False
        (fst (try_body sf si now calls lg uid ct)) = False"
  by (simp add: try_body_def Let_def split: call_outcome.splits sum.splits ending.splits)

lemma except_clause_guarded:
  "session_writes_guarded False (fst (except_clause sf si now calls e lg uid ct))"
  by (simp add: except_clause_def Let_def split: call_outcome.splits ending.splits)

lemma handle_challenge_session_writes_guarded:
  "session_writes_guarded False (fst (handle_challenge sf si now calls lg uid mt))"
  by (simp add: handle_challenge_def final_reply_def Let_def
      log_interaction_challenge_start_blocks split: call_outcome.splits sum.splits)

end
